theory Spec2Isabelle
  imports Complex_Main
begin

section \<open>Duke Energy data collector: the class \<open>Duke\<close> of collector/src/duke.ts\<close>

text \<open>
  Conventions of the embedding.
  \<^item> A JavaScript number is an IEEE double, written as the rational that it is exactly
    (\<open>rat\<close>). Each arithmetic operation rounds its exact result to the nearest double
    (\<open>fl\<close>: 53 significant bits, ties to even). The exponent is not bounded: overflow and
    subnormal numbers, and \<open>NaN\<close> and the infinities, are not represented.
  \<^item> \<open>new Date(s).getTime()\<close> is a parameter \<open>tm\<close> of type \<open>string \<Rightarrow> int option\<close>
    (milliseconds; \<open>None\<close> is the time value \<open>NaN\<close> of an Invalid Date), so that every
    theorem holds for every date parser and time zone.
  \<^item> The clock is a parameter: \<open>now\<close> is \<open>new Date().toISOString()\<close> and
    \<open>two_years_ago\<close> is the instant that \<open>setFullYear(getFullYear() - 2)\<close> yields.
  \<^item> A history file is missing, or holds text that \<open>JSON.parse\<close> rejects, or holds an
    array of records of the shape that the program writes for that utility; writing a
    file and reading it back gives the same records.
\<close>

subsection \<open>Numbers\<close>

text \<open>The number of bits of a natural number.\<close>

fun bit_length :: "nat \<Rightarrow> nat" where
  "bit_length n = (if n = 0 then 0 else Suc (bit_length (n div 2)))"

declare bit_length.simps [simp del]

definition pow2 :: "int \<Rightarrow> rat" where
  "pow2 e = (if 0 \<le> e then 2 ^ nat e else 1 / 2 ^ nat (- e))"

text \<open>Rounding to the nearest integer, a tie to the even one.\<close>

definition round_half_even :: "rat \<Rightarrow> int" where
  "round_half_even s =
     (let r = \<lfloor>s\<rfloor>; f = s - of_int r in
      if f < 1 / 2 then r else if 1 / 2 < f then r + 1 else if even r then r else r + 1)"

text \<open>The exponent \<open>e\<close> of the unit in the last place of a positive \<open>x\<close>: \<open>x / 2^e\<close> lies
  between \<open>2^52\<close> and \<open>2^53\<close>.\<close>

definition binade :: "rat \<Rightarrow> int" where
  "binade x =
     (if 1 \<le> x then int (bit_length (nat \<lfloor>x\<rfloor>)) - 53
      else - int (bit_length (nat \<lfloor>1 / x\<rfloor>)) - 52)"

definition fl_pos :: "rat \<Rightarrow> rat" where
  "fl_pos x = (let e = binade x in of_int (round_half_even (x * pow2 (- e))) * pow2 e)"

text \<open>The double nearest to a rational: what a numeric literal denotes and what every
  arithmetic operation returns for its exact result.\<close>

definition fl :: "rat \<Rightarrow> rat" where
  "fl x = (if x = 0 then 0 else if x < 0 then - fl_pos (- x) else fl_pos x)"

text \<open>\<open>a + b\<close>, \<open>a * b\<close> and \<open>a / b\<close> on doubles.\<close>

definition dadd :: "rat \<Rightarrow> rat \<Rightarrow> rat" where
  "dadd a b = fl (a + b)"

definition dmul :: "rat \<Rightarrow> rat \<Rightarrow> rat" where
  "dmul a b = fl (a * b)"

definition ddiv :: "rat \<Rightarrow> rat \<Rightarrow> rat" where
  "ddiv a b = fl (a / b)"

text \<open>\<open>parseFloat(x.toFixed(n))\<close>. \<open>toFixed\<close> takes the integer \<open>m\<close> for which \<open>m / 10^n\<close> is
  nearest to the exact value of the double \<open>x\<close>, the larger one of two equally near (for a
  negative \<open>x\<close> it does so for \<open>- x\<close> and puts the sign in front), and prints \<open>m / 10^n\<close> in
  decimal; \<open>parseFloat\<close> reads that as the nearest double.\<close>

definition toFixed :: "nat \<Rightarrow> rat \<Rightarrow> rat" where
  "toFixed n x =
     (if x < 0 then - fl (of_int \<lfloor>(- x) * 10 ^ n + 1 / 2\<rfloor> / 10 ^ n)
      else fl (of_int \<lfloor>x * 10 ^ n + 1 / 2\<rfloor> / 10 ^ n))"

text \<open>The sum that a loop \<open>total += x\<close> accumulates from \<open>0\<close>.\<close>

definition dsum :: "rat list \<Rightarrow> rat" where
  "dsum xs = foldl dadd 0 xs"

subsection \<open>Readings and records\<close>

text \<open>The objects that \<open>processGasData\<close> pushes.\<close>

record gas_reading =
  rd_date :: string
  rd_full_date :: string
  rd_usage_ccf :: rat
  rd_average_ccf :: "rat option"
  rd_unit :: string
  rd_timestamp :: string

text \<open>The gas \<open>new_record\<close> of \<open>storeUsageData\<close>.\<close>

record gas_record =
  date :: string
  date_label :: string
  usage_ccf :: rat
  usage_therms :: rat
  average_ccf :: "rat option"
  unit :: string
  timestamp :: string
  created_at :: string

text \<open>An electric reading; an optional field that the object lacks is \<open>None\<close>
  (\<open>undefined\<close>). \<open>processElectricJsonData\<close> and \<open>groupElectricReadingsByDay\<close> set
  \<open>date\<close>, \<open>full_date\<close>, \<open>usage_kwh\<close> and \<open>timestamp\<close>.\<close>

record electric_reading =
  er_date :: "string option"
  er_full_date :: "string option"
  er_date_label :: "string option"
  er_energy :: "rat option"
  er_usage_kwh :: rat
  er_unit :: string
  er_startTime :: "string option"
  er_endTime :: "string option"
  er_timestamp :: "string option"

record electric_record =
  e_date :: "string option"
  e_date_label :: "string option"
  usage_kwh :: rat
  start_time :: "string option"
  end_time :: "string option"
  e_unit :: string
  e_timestamp :: string
  e_created_at :: string

text \<open>\<open>a || b\<close> on strings and on numbers: \<open>undefined\<close>, the empty string and \<open>0\<close> are falsy.\<close>

definition or_str :: "string option \<Rightarrow> string option \<Rightarrow> string option" where
  "or_str a b = (if a = None \<or> a = Some [] then b else a)"

definition or_num :: "rat option \<Rightarrow> rat \<Rightarrow> rat" where
  "or_num a b = (case a of None \<Rightarrow> b | Some v \<Rightarrow> if v = 0 then b else v)"

definition gas_new_record :: "string \<Rightarrow> gas_reading \<Rightarrow> gas_record" where
  "gas_new_record now reading =
     (let usage_therms = dmul (rd_usage_ccf reading) (fl (1037 / 1000)) in
      \<lparr> date = rd_full_date reading,
        date_label = rd_date reading,
        usage_ccf = rd_usage_ccf reading,
        usage_therms = toFixed 3 usage_therms,
        average_ccf = rd_average_ccf reading,
        unit = rd_unit reading,
        timestamp = rd_timestamp reading,
        created_at = now \<rparr>)"

definition electric_new_record :: "string \<Rightarrow> electric_reading \<Rightarrow> electric_record" where
  "electric_new_record now reading =
     \<lparr> e_date = or_str (er_full_date reading) (er_date reading),
       e_date_label = or_str (er_date_label reading) (er_date reading),
       usage_kwh = or_num (er_energy reading) (er_usage_kwh reading),
       start_time = er_startTime reading,
       end_time = er_endTime reading,
       e_unit = ''kWh'',
       e_timestamp = (case or_str (er_timestamp reading) None of Some t \<Rightarrow> t | None \<Rightarrow> now),
       e_created_at = now \<rparr>"

definition gas_dateKey :: "gas_reading \<Rightarrow> string" where
  "gas_dateKey reading = rd_full_date reading"

definition electric_dateKey :: "electric_reading \<Rightarrow> string option" where
  "electric_dateKey reading = or_str (er_full_date reading) (er_date reading)"

subsection \<open>The reconciliation loop, the sort and the retention filter\<close>

text \<open>\<open>Array.prototype.findIndex\<close>; \<open>None\<close> is the result \<open>-1\<close>.\<close>

fun findIndex :: "('a \<Rightarrow> bool) \<Rightarrow> 'a list \<Rightarrow> nat option" where
  "findIndex p [] = None"
| "findIndex p (x # xs) = (if p x then Some 0 else map_option Suc (findIndex p xs))"

text \<open>One iteration of the loop over \<open>usage_data\<close>: \<open>dateOf\<close> reads \<open>record.date\<close>,
  \<open>new_record\<close> and \<open>dateKey\<close> are the two service-dependent parts.\<close>

definition upsert ::
  "('rc \<Rightarrow> 'k) \<Rightarrow> ('rd \<Rightarrow> 'rc) \<Rightarrow> ('rd \<Rightarrow> 'k) \<Rightarrow> 'rc list \<Rightarrow> 'rd \<Rightarrow> 'rc list" where
  "upsert dateOf new_record dateKey historical_data reading =
     (case findIndex (\<lambda>record. dateOf record = dateKey reading) historical_data of
        Some existing_index \<Rightarrow> historical_data[existing_index := new_record reading]
      | None \<Rightarrow> historical_data @ [new_record reading])"

definition upsert_all ::
  "('rc \<Rightarrow> 'k) \<Rightarrow> ('rd \<Rightarrow> 'rc) \<Rightarrow> ('rd \<Rightarrow> 'k) \<Rightarrow> 'rc list \<Rightarrow> 'rd list \<Rightarrow> 'rc list" where
  "upsert_all dateOf new_record dateKey historical_data usage_data =
     foldl (upsert dateOf new_record dateKey) historical_data usage_data"

text \<open>The comparator \<open>(a, b) => new Date(a.date).getTime() - new Date(b.date).getTime()\<close>;
  \<open>None\<close> is \<open>NaN\<close>.\<close>

definition date_cmp :: "('rc \<Rightarrow> int option) \<Rightarrow> 'rc \<Rightarrow> 'rc \<Rightarrow> int option" where
  "date_cmp getTime a b =
     (case (getTime a, getTime b) of (Some ta, Some tb) \<Rightarrow> Some (ta - tb) | _ \<Rightarrow> None)"

text \<open>\<open>Array.prototype.sort\<close> with a comparator, as a stable insertion sort. ECMAScript
  requires the sort to be stable and reads a comparator result \<open>NaN\<close> as \<open>0\<close>; the order
  it produces is fixed by the standard only when the comparator is consistent, which for
  \<open>date_cmp\<close> means that every date parses. For other inputs the order is that of this
  insertion sort, which inserts from the last element to the first and puts an element
  before the first one that it does not exceed.\<close>

definition sort_compare :: "('a \<Rightarrow> 'a \<Rightarrow> int option) \<Rightarrow> 'a \<Rightarrow> 'a \<Rightarrow> int" where
  "sort_compare comparefn x y = (case comparefn x y of None \<Rightarrow> 0 | Some v \<Rightarrow> v)"

fun js_insert :: "('a \<Rightarrow> 'a \<Rightarrow> int option) \<Rightarrow> 'a \<Rightarrow> 'a list \<Rightarrow> 'a list" where
  "js_insert comparefn x [] = [x]"
| "js_insert comparefn x (y # ys) =
     (if sort_compare comparefn x y \<le> 0 then x # y # ys else y # js_insert comparefn x ys)"

definition js_sort :: "('a \<Rightarrow> 'a \<Rightarrow> int option) \<Rightarrow> 'a list \<Rightarrow> 'a list" where
  "js_sort comparefn xs = foldr (js_insert comparefn) xs []"

text \<open>\<open>new Date(record.date) >= two_years_ago\<close>; a comparison with \<open>NaN\<close> is false.\<close>

definition not_before :: "('rc \<Rightarrow> int option) \<Rightarrow> int \<Rightarrow> 'rc \<Rightarrow> bool" where
  "not_before getTime two_years_ago record =
     (case getTime record of None \<Rightarrow> False | Some t \<Rightarrow> two_years_ago \<le> t)"

text \<open>The body of \<open>storeUsageData\<close> between the load and the write.\<close>

definition reconcile ::
  "('rc \<Rightarrow> int option) \<Rightarrow> int \<Rightarrow> ('rc \<Rightarrow> 'k) \<Rightarrow> ('rd \<Rightarrow> 'rc) \<Rightarrow> ('rd \<Rightarrow> 'k) \<Rightarrow>
     'rc list \<Rightarrow> 'rd list \<Rightarrow> 'rc list" where
  "reconcile getTime two_years_ago dateOf new_record dateKey historical_data usage_data =
     filter (not_before getTime two_years_ago)
       (js_sort (date_cmp getTime)
          (upsert_all dateOf new_record dateKey historical_data usage_data))"

subsection \<open>History files\<close>

datatype 'a history_file = Missing | Corrupt | Series "'a list"

text \<open>\<open>loadHistoricalData\<close>: a file that cannot be read or parsed gives the empty list.\<close>

definition loadHistoricalData :: "'rc history_file \<Rightarrow> 'rc list" where
  "loadHistoricalData file = (case file of Series data \<Rightarrow> data | _ \<Rightarrow> [])"

text \<open>The time of a record's \<open>date\<close>; an absent \<open>date\<close> is an Invalid Date.\<close>

definition gas_getTime :: "(string \<Rightarrow> int option) \<Rightarrow> gas_record \<Rightarrow> int option" where
  "gas_getTime tm record = tm (date record)"

definition electric_getTime :: "(string \<Rightarrow> int option) \<Rightarrow> electric_record \<Rightarrow> int option" where
  "electric_getTime tm record = (case e_date record of None \<Rightarrow> None | Some s \<Rightarrow> tm s)"

text \<open>\<open>storeUsageData(usage_data, 'GAS')\<close> and \<open>storeUsageData(usage_data, 'ELECTRIC')\<close> as
  functions from the content of the history file to its content afterwards.\<close>

definition storeUsageData_GAS ::
  "(string \<Rightarrow> int option) \<Rightarrow> string \<Rightarrow> int \<Rightarrow> gas_reading list \<Rightarrow>
     gas_record history_file \<Rightarrow> gas_record history_file" where
  "storeUsageData_GAS tm now two_years_ago usage_data file =
     (if usage_data = [] then file
      else Series (reconcile (gas_getTime tm) two_years_ago date (gas_new_record now) gas_dateKey
                     (loadHistoricalData file) usage_data))"

definition storeUsageData_ELECTRIC ::
  "(string \<Rightarrow> int option) \<Rightarrow> string \<Rightarrow> int \<Rightarrow> electric_reading list \<Rightarrow>
     electric_record history_file \<Rightarrow> electric_record history_file" where
  "storeUsageData_ELECTRIC tm now two_years_ago usage_data file =
     (if usage_data = [] then file
      else Series (reconcile (electric_getTime tm) two_years_ago e_date (electric_new_record now)
                     electric_dateKey (loadHistoricalData file) usage_data))"

subsection \<open>Strings and dates\<close>

fun nat_toString :: "nat \<Rightarrow> string" where
  "nat_toString n =
     (if n < 10 then [''0123456789'' ! n]
      else nat_toString (n div 10) @ [''0123456789'' ! (n mod 10)])"

declare nat_toString.simps [simp del]

definition int_toString :: "int \<Rightarrow> string" where
  "int_toString i = (if i < 0 then ''-'' @ nat_toString (nat (- i)) else nat_toString (nat i))"

text \<open>\<open>s.padStart(2, '0')\<close>.\<close>

definition padStart2 :: "string \<Rightarrow> string" where
  "padStart2 s = replicate (2 - length s) CHR ''0'' @ s"

text \<open>\<open>a.localeCompare(b)\<close>, as the comparison by character code; the two agree on strings
  of digits and hyphens, which is what month keys of parsed dates are.\<close>

fun localeCompare :: "string \<Rightarrow> string \<Rightarrow> int" where
  "localeCompare [] [] = 0"
| "localeCompare [] (y # ys) = - 1"
| "localeCompare (x # xs) [] = 1"
| "localeCompare (x # xs) (y # ys) =
     (if (of_char x :: nat) < of_char y then - 1
      else if (of_char y :: nat) < of_char x then 1
      else localeCompare xs ys)"

text \<open>The month key of \<open>createMonthlySummary\<close>. The parameter \<open>cal\<close> gives
  \<open>(getFullYear(), getMonth())\<close> of \<open>new Date(s)\<close>, and \<open>None\<close> for an Invalid Date, whose
  fields are \<open>NaN\<close>.\<close>

definition month_key_of :: "(string \<Rightarrow> (int \<times> nat) option) \<Rightarrow> string \<Rightarrow> string" where
  "month_key_of cal s =
     (case cal s of
        None \<Rightarrow> ''NaN-NaN''
      | Some (fullYear, month0) \<Rightarrow>
          int_toString fullYear @ ''-'' @ padStart2 (nat_toString (month0 + 1)))"

subsection \<open>Monthly summaries\<close>

record gas_month =
  month :: string
  total_ccf :: rat
  total_therms :: rat
  days :: nat
  average_daily_ccf :: rat
  average_daily_therms :: rat

record electric_month =
  em_month :: string
  total_kwh :: rat
  em_days :: nat
  average_daily_kwh :: rat

text \<open>\<open>monthly_data\<close> is an object whose keys are month keys: an association list in
  insertion order, which is the order of \<open>Object.keys\<close> and \<open>Object.values\<close> for keys that
  are not array indices. One iteration of the loop over \<open>historical_data\<close>:\<close>

definition gas_month_step ::
  "(string \<Rightarrow> (int \<times> nat) option) \<Rightarrow> (string \<times> gas_month) list \<Rightarrow> gas_record \<Rightarrow>
     (string \<times> gas_month) list" where
  "gas_month_step cal monthly_data record =
     (let month_key = month_key_of cal (date record);
          monthly_data1 =
            (if map_of monthly_data month_key = None
             then monthly_data @
                    [(month_key, \<lparr> month = month_key, total_ccf = 0, total_therms = 0, days = 0,
                                   average_daily_ccf = 0, average_daily_therms = 0 \<rparr>)]
             else monthly_data)
      in map (\<lambda>(key, m).
                if key = month_key
                then (key, m\<lparr> total_ccf := dadd (total_ccf m) (usage_ccf record),
                              total_therms := dadd (total_therms m) (usage_therms record),
                              days := days m + 1 \<rparr>)
                else (key, m)) monthly_data1)"

definition gas_month_average :: "gas_month \<Rightarrow> gas_month" where
  "gas_month_average m =
     m\<lparr> average_daily_ccf := toFixed 3 (ddiv (total_ccf m) (of_nat (days m))),
        average_daily_therms := toFixed 3 (ddiv (total_therms m) (of_nat (days m))),
        total_ccf := toFixed 3 (total_ccf m),
        total_therms := toFixed 3 (total_therms m) \<rparr>"

definition createMonthlySummary_GAS ::
  "(string \<Rightarrow> (int \<times> nat) option) \<Rightarrow> gas_record list \<Rightarrow> gas_month list" where
  "createMonthlySummary_GAS cal historical_data =
     js_sort (\<lambda>a b. Some (localeCompare (month a) (month b)))
       (map (\<lambda>(key, m). gas_month_average m)
          (foldl (gas_month_step cal) [] historical_data))"

definition electric_month_step ::
  "(string \<Rightarrow> (int \<times> nat) option) \<Rightarrow> (string \<times> electric_month) list \<Rightarrow> electric_record \<Rightarrow>
     (string \<times> electric_month) list" where
  "electric_month_step cal monthly_data record =
     (let month_key = (case e_date record of None \<Rightarrow> ''NaN-NaN'' | Some s \<Rightarrow> month_key_of cal s);
          monthly_data1 =
            (if map_of monthly_data month_key = None
             then monthly_data @
                    [(month_key, \<lparr> em_month = month_key, total_kwh = 0, em_days = 0,
                                   average_daily_kwh = 0 \<rparr>)]
             else monthly_data)
      in map (\<lambda>(key, m).
                if key = month_key
                then (key, m\<lparr> total_kwh := dadd (total_kwh m) (usage_kwh record),
                              em_days := em_days m + 1 \<rparr>)
                else (key, m)) monthly_data1)"

definition electric_month_average :: "electric_month \<Rightarrow> electric_month" where
  "electric_month_average m =
     m\<lparr> average_daily_kwh := toFixed 3 (ddiv (total_kwh m) (of_nat (em_days m))),
        total_kwh := toFixed 3 (total_kwh m) \<rparr>"

definition createMonthlySummary_ELECTRIC ::
  "(string \<Rightarrow> (int \<times> nat) option) \<Rightarrow> electric_record list \<Rightarrow> electric_month list" where
  "createMonthlySummary_ELECTRIC cal historical_data =
     js_sort (\<lambda>a b. Some (localeCompare (em_month a) (em_month b)))
       (map (\<lambda>(key, m). electric_month_average m)
          (foldl (electric_month_step cal) [] historical_data))"

subsection \<open>Decoding the portal's responses\<close>

text \<open>The object that \<open>JSON.parse\<close> returns for a response; an absent property is \<open>None\<close>.
  The entries of the series are numbers, the ones that \<open>parseFloat\<close> reads from them; an
  entry that is a string (of which \<open>'0'\<close> is truthy where the number \<open>0\<close> is not) is not
  represented.\<close>

record raw_data =
  Series1 :: "rat list option"
  Series2 :: "rat list option"
  TickSeries :: "string list option"
  UnitOfMeasure :: "string option"

text \<open>\<open>xs[i]\<close>, which is \<open>undefined\<close> beyond the end.\<close>

definition at_index :: "'a list \<Rightarrow> nat \<Rightarrow> 'a option" where
  "at_index xs i = (if i < length xs then Some (xs ! i) else None)"

text \<open>\<open>s.split('/')\<close>.\<close>

fun split_slash :: "string \<Rightarrow> string list" where
  "split_slash [] = [[]]"
| "split_slash (c # cs) =
     (if c = CHR ''/'' then [] # split_slash cs
      else (case split_slash cs of [] \<Rightarrow> [[c]] | part # parts \<Rightarrow> (c # part) # parts))"

text \<open>The block that turns a tick label \<open>M/D\<close> into \<open>full_date\<close>; \<open>None\<close> is the \<open>catch\<close>
  branch, which skips the entry. A label that is \<open>undefined\<close> (the tick series is shorter
  than the usage series) is skipped as well.\<close>

definition label_full_date :: "int \<Rightarrow> string \<Rightarrow> string option" where
  "label_full_date current_year label =
     (if CHR ''/'' \<in> set label then
        (case split_slash label of
           m # d # _ \<Rightarrow>
             if m \<noteq> [] \<and> d \<noteq> []
             then Some (padStart2 m @ ''/'' @ padStart2 d @ ''/'' @ int_toString current_year)
             else None
         | _ \<Rightarrow> None)
      else None)"

definition unit_or :: "string option \<Rightarrow> string \<Rightarrow> string" where
  "unit_or u dflt = (case u of None \<Rightarrow> dflt | Some v \<Rightarrow> if v = [] then dflt else v)"

definition processGasData ::
  "(string \<Rightarrow> int option) \<Rightarrow> string \<Rightarrow> int \<Rightarrow> raw_data \<Rightarrow> gas_reading list" where
  "processGasData tm now current_year raw =
     (case (Series1 raw, TickSeries raw) of
        (Some usage_values, Some date_labels) \<Rightarrow>
          js_sort (date_cmp (\<lambda>r. tm (rd_full_date r)))
            (List.map_filter
               (\<lambda>i. case Option.bind (at_index date_labels i) (label_full_date current_year) of
                       None \<Rightarrow> None
                     | Some full_date \<Rightarrow>
                         Some \<lparr> rd_date = date_labels ! i,
                                rd_full_date = full_date,
                                rd_usage_ccf = usage_values ! i,
                                rd_average_ccf =
                                  (case Series2 raw of
                                     None \<Rightarrow> None
                                   | Some average_values \<Rightarrow>
                                       (case at_index average_values i of
                                          None \<Rightarrow> None
                                        | Some a \<Rightarrow> if a = 0 then None else Some a)),
                                rd_unit = unit_or (UnitOfMeasure raw) ''CCF'',
                                rd_timestamp = now \<rparr>)
               [0 ..< length usage_values])
      | _ \<Rightarrow> [])"

definition electric_getTime_reading :: "(string \<Rightarrow> int option) \<Rightarrow> electric_reading \<Rightarrow> int option" where
  "electric_getTime_reading tm r = (case er_full_date r of None \<Rightarrow> None | Some s \<Rightarrow> tm s)"

definition processElectricJsonData ::
  "(string \<Rightarrow> int option) \<Rightarrow> string \<Rightarrow> int \<Rightarrow> raw_data \<Rightarrow> electric_reading list" where
  "processElectricJsonData tm now current_year raw =
     (case (Series1 raw, TickSeries raw) of
        (Some usage_values, Some date_labels) \<Rightarrow>
          js_sort (date_cmp (electric_getTime_reading tm))
            (List.map_filter
               (\<lambda>i. case Option.bind (at_index date_labels i) (label_full_date current_year) of
                       None \<Rightarrow> None
                     | Some full_date \<Rightarrow>
                         Some \<lparr> er_date = at_index date_labels i,
                                er_full_date = Some full_date,
                                er_date_label = None,
                                er_energy = None,
                                er_usage_kwh = usage_values ! i,
                                er_unit = unit_or (UnitOfMeasure raw) ''kWh'',
                                er_startTime = None,
                                er_endTime = None,
                                er_timestamp = Some now \<rparr>)
               [0 ..< length usage_values])
      | _ \<Rightarrow> [])"

text \<open>The interval readings of the XML response. \<open>day_key\<close> is
  \<open>new Date(time * 1000).toLocaleDateString('en-US', ...)\<close>.\<close>

record interval_reading =
  readingquality :: string
  start :: int
  ivalue :: rat

definition daily_step ::
  "(int \<Rightarrow> string) \<Rightarrow> (string \<times> rat) list \<Rightarrow> interval_reading \<Rightarrow> (string \<times> rat) list" where
  "daily_step day_key dailyTotals reading =
     (let dateKey = day_key (start reading);
          dailyTotals1 =
            (if map_of dailyTotals dateKey = None then dailyTotals @ [(dateKey, 0)]
             else dailyTotals)
      in map (\<lambda>(key, total). if key = dateKey
                                then (key, dadd total (ddiv (ivalue reading) 1000))
                                else (key, total)) dailyTotals1)"

definition groupElectricReadingsByDay ::
  "(string \<Rightarrow> int option) \<Rightarrow> (int \<Rightarrow> string) \<Rightarrow> string \<Rightarrow> interval_reading list \<Rightarrow>
     electric_reading list" where
  "groupElectricReadingsByDay tm day_key now readings =
     js_sort (date_cmp (electric_getTime_reading tm))
       (map (\<lambda>(dateKey, total).
               \<lparr> er_date = Some dateKey,
                 er_full_date = Some dateKey,
                 er_date_label = None,
                 er_energy = None,
                 er_usage_kwh = toFixed 3 total,
                 er_unit = ''kWh'',
                 er_startTime = None,
                 er_endTime = None,
                 er_timestamp = Some now \<rparr>)
          (foldl (daily_step day_key) [] readings))"

subsection \<open>The exported views\<close>

record gas_stat =
  gs_date :: string
  ccf :: rat
  therms :: rat
  gs_cost_estimate :: rat

record electric_stat =
  es_date :: "string option"
  kwh :: rat
  es_cost_estimate :: rat

text \<open>The four documents that \<open>exportForHomeAssistant\<close> writes for one utility.\<close>

record gas_views =
  latest :: gas_record
  recent :: "gas_record list"
  monthly :: "gas_month list"
  energy_stats :: "gas_stat list"

record electric_views =
  e_latest :: electric_record
  e_recent :: "electric_record list"
  e_monthly :: "electric_month list"
  e_energy_stats :: "electric_stat list"

definition exportForHomeAssistant_GAS ::
  "(string \<Rightarrow> int option) \<Rightarrow> (string \<Rightarrow> (int \<times> nat) option) \<Rightarrow> int \<Rightarrow>
     gas_record history_file \<Rightarrow> gas_views option \<Rightarrow> gas_views option" where
  "exportForHomeAssistant_GAS tm cal thirty_days_ago file views =
     (let historical_data = loadHistoricalData file in
      if length historical_data = 0 then views
      else Some
        \<lparr> latest = historical_data ! (length historical_data - 1),
          recent = filter (not_before (gas_getTime tm) thirty_days_ago) historical_data,
          monthly = createMonthlySummary_GAS cal historical_data,
          energy_stats =
            map (\<lambda>record. \<lparr> gs_date = date record, ccf = usage_ccf record,
                             therms = usage_therms record,
                             gs_cost_estimate =
                               toFixed 2 (dmul (usage_ccf record) (fl (5685 / 10000))) \<rparr>)
              historical_data \<rparr>)"

definition exportForHomeAssistant_ELECTRIC ::
  "(string \<Rightarrow> int option) \<Rightarrow> (string \<Rightarrow> (int \<times> nat) option) \<Rightarrow> int \<Rightarrow>
     electric_record history_file \<Rightarrow> electric_views option \<Rightarrow> electric_views option" where
  "exportForHomeAssistant_ELECTRIC tm cal thirty_days_ago file views =
     (let historical_data = loadHistoricalData file in
      if length historical_data = 0 then views
      else Some
        \<lparr> e_latest = historical_data ! (length historical_data - 1),
          e_recent = filter (not_before (electric_getTime tm) thirty_days_ago) historical_data,
          e_monthly = createMonthlySummary_ELECTRIC cal historical_data,
          e_energy_stats =
            map (\<lambda>record. \<lparr> es_date = e_date record, kwh = usage_kwh record,
                             es_cost_estimate =
                               toFixed 2 (dmul (usage_kwh record) (fl (929 / 10000))) \<rparr>)
              historical_data \<rparr>)"

subsection \<open>The files and the outside world of one run\<close>

datatype electric_raw = RawJson raw_data | RawXml "interval_reading list"

record files =
  gas_history_file :: "gas_record history_file"
  electric_history_file :: "electric_record history_file"
  gas_raw :: "raw_data option"
  electric_raw_file :: "electric_raw option"
  gas_views_files :: "gas_views option"
  electric_views_files :: "electric_views option"

text \<open>What \<open>api_response.match(/\{.*\}/s)\<close> and \<open>JSON.parse\<close> make of a response body: no
  match, a match that does not parse, or the parsed object.\<close>

datatype json_body = NoJson | BadJson | Json raw_data

text \<open>A request either throws (\<open>newPage\<close>, \<open>goto\<close> or \<open>content\<close> fails or times out) or
  gives a body. For the electric body the second component is what the XML path finds:
  the interval readings, or \<open>None\<close> when parsing or the property path throws.\<close>

datatype 'a fetched = FetchError | Body 'a

text \<open>Everything that a run reads from outside: the environment variables, the clock, the
  date functions of the engine, and how the browser and the portal answer.\<close>

record world =
  EMAIL :: "string option"
  PASSWORD :: "string option"
  ACCOUNTNUM :: "string option"
  GAS_METERNUM :: "string option"
  ELECTRIC_METERNUM :: "string option"
  w_tm :: "string \<Rightarrow> int option"
  w_cal :: "string \<Rightarrow> (int \<times> nat) option"
  w_day_key :: "int \<Rightarrow> string"
  w_now :: string
  w_two_years_ago :: int
  w_thirty_days_ago :: int
  w_current_year :: int
  launch_ok :: bool
  login_ok :: bool
  gas_response :: "json_body fetched"
  electric_response :: "(json_body \<times> interval_reading list option) fetched"

text \<open>Truthiness of an environment variable, and \<open>v && v.trim()\<close>, with the white space
  of ASCII.\<close>

definition is_set :: "string option \<Rightarrow> bool" where
  "is_set v = (v \<noteq> None \<and> v \<noteq> Some [])"

definition white_space :: "char \<Rightarrow> bool" where
  "white_space c = (c \<in> set [CHR '' '', CHR 0x09, CHR 0x0A, CHR 0x0B, CHR 0x0C, CHR 0x0D])"

definition is_set_trimmed :: "string option \<Rightarrow> bool" where
  "is_set_trimmed v = (case v of None \<Rightarrow> False | Some s \<Rightarrow> \<exists>c\<in>set s. \<not> white_space c)"

definition valid_config :: "world \<Rightarrow> bool" where
  "valid_config w =
     (if \<not> list_all is_set [EMAIL w, PASSWORD w, ACCOUNTNUM w] then False
      else let hasGas = is_set_trimmed (GAS_METERNUM w);
               hasElectric = is_set_trimmed (ELECTRIC_METERNUM w)
           in if \<not> hasGas \<and> \<not> hasElectric then False else True)"

definition initHistoryFiles :: "world \<Rightarrow> files \<Rightarrow> files" where
  "initHistoryFiles w fs =
     (let fs1 = (if is_set (GAS_METERNUM w) \<and> gas_history_file fs = Missing
                 then fs\<lparr>gas_history_file := Series []\<rparr> else fs)
      in if is_set (ELECTRIC_METERNUM w) \<and> electric_history_file fs1 = Missing
         then fs1\<lparr>electric_history_file := Series []\<rparr> else fs1)"

text \<open>The constructor: an invalid configuration makes it return before
  \<open>initHistoryFiles\<close>; the object is constructed all the same.\<close>

definition constructor :: "world \<Rightarrow> files \<Rightarrow> files" where
  "constructor w fs = (if \<not> valid_config w then fs else initHistoryFiles w fs)"

subsection \<open>The two pipelines\<close>

text \<open>\<open>read_gas_api\<close> and \<open>read_electric_api\<close> return the files as they leave them and the
  processed readings, or \<open>None\<close> when they throw.\<close>

definition read_gas_api :: "world \<Rightarrow> files \<Rightarrow> files \<times> gas_reading list option" where
  "read_gas_api w fs =
     (case gas_response w of
        FetchError \<Rightarrow> (fs, None)
      | Body NoJson \<Rightarrow> (fs, None)
      | Body BadJson \<Rightarrow> (fs, None)
      | Body (Json gas_data) \<Rightarrow>
          (let fs1 = fs\<lparr>gas_raw := Some gas_data\<rparr>;
               processed_data = processGasData (w_tm w) (w_now w) (w_current_year w) gas_data;
               fs2 = fs1\<lparr>gas_history_file :=
                        storeUsageData_GAS (w_tm w) (w_now w) (w_two_years_ago w) processed_data
                          (gas_history_file fs1)\<rparr>;
               fs3 = fs2\<lparr>gas_views_files :=
                        exportForHomeAssistant_GAS (w_tm w) (w_cal w) (w_thirty_days_ago w)
                          (gas_history_file fs2) (gas_views_files fs2)\<rparr>
           in (fs3, Some processed_data)))"

definition electric_store_export :: "world \<Rightarrow> electric_reading list \<Rightarrow> files \<Rightarrow> files" where
  "electric_store_export w usage_data fs1 =
     (let fs2 = fs1\<lparr>electric_history_file :=
                   storeUsageData_ELECTRIC (w_tm w) (w_now w) (w_two_years_ago w) usage_data
                     (electric_history_file fs1)\<rparr>
      in fs2\<lparr>electric_views_files :=
               exportForHomeAssistant_ELECTRIC (w_tm w) (w_cal w) (w_thirty_days_ago w)
                 (electric_history_file fs2) (electric_views_files fs2)\<rparr>)"

definition read_electric_api :: "world \<Rightarrow> files \<Rightarrow> files \<times> electric_reading list option" where
  "read_electric_api w fs =
     (case electric_response w of
        FetchError \<Rightarrow> (fs, None)
      | Body (Json electric_data, xml) \<Rightarrow>
          (let processed_data =
                 processElectricJsonData (w_tm w) (w_now w) (w_current_year w) electric_data
           in (electric_store_export w processed_data
                 (fs\<lparr>electric_raw_file := Some (RawJson electric_data)\<rparr>),
               Some processed_data))
      | Body (_, None) \<Rightarrow> (fs, None)
      | Body (_, Some intervalreading) \<Rightarrow>
          (let readings = filter (\<lambda>reading. readingquality reading = ''ACTUAL'') intervalreading;
               dailyData = groupElectricReadingsByDay (w_tm w) (w_day_key w) (w_now w) readings
           in (electric_store_export w dailyData
                 (fs\<lparr>electric_raw_file := Some (RawXml intervalreading)\<rparr>),
               Some dailyData)))"

subsection \<open>\<open>fetch_once\<close> and \<open>main\<close>\<close>

datatype browser = NoBrowser | BrowserOpen | BrowserClosed

record utility_result =
  success :: bool
  failed :: bool
  data_points :: nat

record run_state =
  rs_browser :: browser
  rs_files :: files
  rs_gas :: utility_result
  rs_electric :: utility_result

text \<open>How the \<open>try\<close> block ends: it runs to its end, it throws, or it calls
  \<open>process.exit\<close>, which ends the process there and then.\<close>

datatype completion = Normal run_state | Thrown run_state | Exited nat run_state

definition no_result :: utility_result where
  "no_result = \<lparr> success = False, failed = False, data_points = 0 \<rparr>"

definition try_block :: "world \<Rightarrow> files \<Rightarrow> completion" where
  "try_block w fs0 =
     (if \<not> launch_ok w then
        Thrown \<lparr> rs_browser = NoBrowser, rs_files = fs0, rs_gas = no_result,
                 rs_electric = no_result \<rparr>
      else if \<not> login_ok w then
        Thrown \<lparr> rs_browser = BrowserOpen, rs_files = fs0, rs_gas = no_result,
                 rs_electric = no_result \<rparr>
      else
        let (fs1, gas) =
              (if is_set (GAS_METERNUM w) then
                 (case read_gas_api w fs0 of
                    (f, Some gas_data) \<Rightarrow>
                      (f, \<lparr> success = True, failed = False, data_points = length gas_data \<rparr>)
                  | (f, None) \<Rightarrow> (f, \<lparr> success = False, failed = True, data_points = 0 \<rparr>))
               else (fs0, no_result));
            (fs2, electric) =
              (if is_set (ELECTRIC_METERNUM w) then
                 (case read_electric_api w fs1 of
                    (f, Some electric_data) \<Rightarrow>
                      (f, \<lparr> success = True, failed = False,
                            data_points = length electric_data \<rparr>)
                  | (f, None) \<Rightarrow> (f, \<lparr> success = False, failed = True, data_points = 0 \<rparr>))
               else (fs1, no_result));
            st = \<lparr> rs_browser = BrowserOpen, rs_files = fs2, rs_gas = gas,
                   rs_electric = electric \<rparr>;
            anySuccess = (success gas \<or> success electric)
        in if \<not> anySuccess then Exited 1 st else Normal st)"

record ended =
  exit_code :: nat
  at_exit :: run_state

text \<open>\<open>fetch_once\<close>. A \<open>process.exit(1)\<close> in the \<open>try\<close> block or in the \<open>catch\<close> block ends
  the process before the \<open>finally\<close> block; the \<open>finally\<close> block runs only when the \<open>try\<close>
  block runs to its end, closes the browser and ends the process with code 0.\<close>

definition fetch_once :: "world \<Rightarrow> files \<Rightarrow> ended" where
  "fetch_once w fs =
     (case try_block w fs of
        Exited code st \<Rightarrow> \<lparr> exit_code = code, at_exit = st \<rparr>
      | Thrown st \<Rightarrow> \<lparr> exit_code = 1, at_exit = st \<rparr>
      | Normal st \<Rightarrow>
          \<lparr> exit_code = 0,
            at_exit = (if rs_browser st \<noteq> NoBrowser then st\<lparr>rs_browser := BrowserClosed\<rparr>
                       else st) \<rparr>)"

definition main :: "world \<Rightarrow> files \<Rightarrow> ended" where
  "main w fs = fetch_once w (constructor w fs)"

subsection \<open>A date parser for concrete instances\<close>

text \<open>The theorems hold for every date parser. For instances, \<open>mdy_time\<close> and \<open>mdy_cal\<close> read
  the strings \<open>MM/DD/YYYY\<close> that the program writes, as midnight of that calendar day in a
  zone without offset. Every other string is an Invalid Date here, also a string with a
  day beyond the end of its month, which the engines roll over into the next month; no
  instance below has such a date.\<close>

definition digits_value :: "string \<Rightarrow> nat option" where
  "digits_value s =
     (if s \<noteq> [] \<and> list_all (\<lambda>c. 48 \<le> (of_char c :: nat) \<and> (of_char c :: nat) \<le> 57) s
      then Some (foldl (\<lambda>n c. 10 * n + (of_char c - 48)) 0 s) else None)"

definition days_in_month :: "nat \<Rightarrow> nat \<Rightarrow> nat" where
  "days_in_month y m =
     (if m = 2 then (if y mod 4 = 0 \<and> (y mod 100 \<noteq> 0 \<or> y mod 400 = 0) then 29 else 28)
      else if m \<in> set [4, 6, 9, 11] then 30 else 31)"

definition mdy_fields :: "string \<Rightarrow> (nat \<times> nat \<times> nat) option" where
  "mdy_fields s =
     (case map digits_value (split_slash s) of
        [Some m, Some d, Some y] \<Rightarrow>
          if 1 \<le> m \<and> m \<le> 12 \<and> 1 \<le> d \<and> d \<le> days_in_month y m then Some (y, m, d) else None
      | _ \<Rightarrow> None)"

text \<open>Days since 1970-01-01 of a calendar day.\<close>

definition days_from_civil :: "nat \<Rightarrow> nat \<Rightarrow> nat \<Rightarrow> int" where
  "days_from_civil y m d =
     (let y1 = (if m \<le> 2 then int y - 1 else int y);
          era = y1 div 400;
          yoe = y1 - era * 400;
          doy = (153 * (if 2 < m then int m - 3 else int m + 9) + 2) div 5 + int d - 1;
          doe = yoe * 365 + yoe div 4 - yoe div 100 + doy
      in era * 146097 + doe - 719468)"

definition mdy_time :: "string \<Rightarrow> int option" where
  "mdy_time s = map_option (\<lambda>(y, m, d). 86400000 * days_from_civil y m d) (mdy_fields s)"

definition mdy_cal :: "string \<Rightarrow> (int \<times> nat) option" where
  "mdy_cal s = map_option (\<lambda>(y, m, d). (int y, m - 1)) (mdy_fields s)"

subsection \<open>A world and files for concrete runs\<close>

text \<open>Concrete runs are written as updates of \<open>idle_world\<close> (no environment variable is
  set, the browser launches, the login fails, no request succeeds) and of \<open>no_files\<close> (no
  file exists).\<close>

definition idle_world :: world where
  "idle_world =
     \<lparr> EMAIL = None, PASSWORD = None, ACCOUNTNUM = None, GAS_METERNUM = None,
       ELECTRIC_METERNUM = None, w_tm = mdy_time, w_cal = mdy_cal, w_day_key = (\<lambda>t. []),
       w_now = ''2024-06-01T06:00:00.000Z'', w_two_years_ago = 1654063200000,
       w_thirty_days_ago = 1714543200000, w_current_year = 2024,
       launch_ok = True, login_ok = False, gas_response = FetchError,
       electric_response = FetchError \<rparr>"

definition no_files :: files where
  "no_files =
     \<lparr> gas_history_file = Missing, electric_history_file = Missing, gas_raw = None,
       electric_raw_file = None, gas_views_files = None, electric_views_files = None \<rparr>"

subsection \<open>Auxiliary notions for the proofs\<close>

text \<open>The last reading of a batch with a given date key.\<close>

definition last_reading :: "('rd \<Rightarrow> 'k) \<Rightarrow> 'rd list \<Rightarrow> 'k \<Rightarrow> 'rd option" where
  "last_reading dateKey usage_data k = find (\<lambda>reading. dateKey reading = k) (rev usage_data)"

text \<open>The effect of a batch on a list that already has a record for each of its keys: the
  first record with a key is replaced by the record built from the last reading with that
  key.\<close>

fun patch ::
  "('rc \<Rightarrow> 'k) \<Rightarrow> ('rd \<Rightarrow> 'rc) \<Rightarrow> ('k \<Rightarrow> 'rd option) \<Rightarrow> 'rc list \<Rightarrow> 'rc list" where
  "patch d nr g [] = []"
| "patch d nr g (x # xs) =
     (case g (d x) of
        Some r \<Rightarrow> nr r # patch d nr (g(d x := None)) xs
      | None \<Rightarrow> x # patch d nr g xs)"

text \<open>What the loop of \<open>createMonthlySummary\<close> has accumulated for a month key after the
  records \<open>rs\<close>.\<close>

definition month_totals :: "(string \<Rightarrow> (int \<times> nat) option) \<Rightarrow> string \<Rightarrow> gas_record list \<Rightarrow> gas_month" where
  "month_totals cal k rs =
     (let g = filter (\<lambda>r. month_key_of cal (date r) = k) rs in
      \<lparr> month = k, total_ccf = dsum (map usage_ccf g),
        total_therms = dsum (map usage_therms g), days = length g,
        average_daily_ccf = 0, average_daily_therms = 0 \<rparr>)"

subsection \<open>Notions used in the statements\<close>

text \<open>A series is non-decreasing by date when the times of its dates are defined and
  non-decreasing.\<close>

definition time_le :: "int option \<Rightarrow> int option \<Rightarrow> bool" where
  "time_le a b = (case (a, b) of (Some ta, Some tb) \<Rightarrow> ta \<le> tb | _ \<Rightarrow> False)"

definition date_sorted :: "('rc \<Rightarrow> int option) \<Rightarrow> 'rc list \<Rightarrow> bool" where
  "date_sorted getTime xs = sorted_wrt (\<lambda>a b. time_le (getTime a) (getTime b)) xs"

text \<open>The time of an electric date key, which may be \<open>undefined\<close>.\<close>

definition key_time :: "(string \<Rightarrow> int option) \<Rightarrow> string option \<Rightarrow> int option" where
  "key_time tm k = (case k of None \<Rightarrow> None | Some s \<Rightarrow> tm s)"

text \<open>A record without its bookkeeping timestamps: \<open>created_at\<close>, and for electric records
  also \<open>timestamp\<close>, which \<open>storeUsageData\<close> fills from the clock when the reading has none.\<close>

definition gas_observable :: "gas_record \<Rightarrow> gas_record" where
  "gas_observable x = x\<lparr>created_at := []\<rparr>"

definition electric_observable :: "electric_record \<Rightarrow> electric_record" where
  "electric_observable x = x\<lparr>e_created_at := [], e_timestamp := []\<rparr>"

section \<open>Properties\<close>

subsection \<open>Helper lemmas on the reconciliation loop\<close>

lemma set_js_insert: "set (js_insert c x xs) = insert x (set xs)"
  by (induction xs) auto

lemma set_js_sort: "set (js_sort c xs) = set xs"
  by (induction xs) (simp_all add: js_sort_def set_js_insert)



lemma set_upsert: "set (upsert d nr dk h r) \<subseteq> insert (nr r) (set h)"
  by (auto simp: upsert_def split: option.splits dest: set_update_subset_insert[THEN subsetD])

lemma set_upsert_all: "set (upsert_all d nr dk h rs) \<subseteq> set h \<union> nr ` set rs"
proof (induction rs arbitrary: h)
  case Nil
  then show ?case by (simp add: upsert_all_def)
next
  case (Cons r rs)
  have "set (upsert_all d nr dk (upsert d nr dk h r) rs)
          \<subseteq> set (upsert d nr dk h r) \<union> nr ` set rs"
    using Cons.IH .
  with set_upsert[of d nr dk h r] show ?case
    by (auto simp: upsert_all_def)
qed

lemma set_reconcile: "set (reconcile gt tya d nr dk h rs) \<subseteq> set h \<union> nr ` set rs"
  using set_upsert_all[of d nr dk h rs] by (auto simp: reconcile_def set_js_sort)

lemma upsert_Nil: "upsert d nr dk [] r = [nr r]"
  by (simp add: upsert_def)

lemma upsert_Cons:
  "upsert d nr dk (x # xs) r = (if d x = dk r then nr r # xs else x # upsert d nr dk xs r)"
  by (simp add: upsert_def split: option.splits)

lemma upsert_all_Nil: "upsert_all d nr dk h [] = h"
  by (simp add: upsert_all_def)

lemma upsert_all_Cons: "upsert_all d nr dk h (r # rs) = upsert_all d nr dk (upsert d nr dk h r) rs"
  by (simp add: upsert_all_def)

lemma upsert_all_snoc: "upsert_all d nr dk h (rs @ [r]) = upsert d nr dk (upsert_all d nr dk h rs) r"
  by (simp add: upsert_all_def)


lemma find_upsert:
  assumes "\<And>r. d (nr r) = dk r"
  shows "find (\<lambda>x. d x = k) (upsert d nr dk xs r) =
         (if k = dk r then Some (nr r) else find (\<lambda>x. d x = k) xs)"
  using assms by (induction xs) (auto simp: upsert_Nil upsert_Cons)

lemma find_upsert_all:
  assumes "\<And>r. d (nr r) = dk r"
  shows "find (\<lambda>x. d x = k) (upsert_all d nr dk xs rs) =
         (case find (\<lambda>r. dk r = k) (rev rs) of Some r \<Rightarrow> Some (nr r) | None \<Rightarrow> find (\<lambda>x. d x = k) xs)"
proof (induction rs rule: rev_induct)
  case Nil
  then show ?case by (simp add: upsert_all_Nil)
next
  case (snoc r rs)
  then show ?case
    using assms by (auto simp: upsert_all_snoc find_upsert)
qed

lemma filter_upsert:
  assumes "\<And>r. d (nr r) = dk r"
  shows "filter (\<lambda>x. Q (d x)) (upsert d nr dk xs r) =
         (if Q (dk r) then upsert d nr dk (filter (\<lambda>x. Q (d x)) xs) r else filter (\<lambda>x. Q (d x)) xs)"
  using assms by (induction xs) (auto simp: upsert_Nil upsert_Cons)

lemma filter_upsert_all:
  assumes "\<And>r. d (nr r) = dk r"
  shows "filter (\<lambda>x. Q (d x)) (upsert_all d nr dk xs rs) =
         upsert_all d nr dk (filter (\<lambda>x. Q (d x)) xs) (filter (\<lambda>r. Q (dk r)) rs)"
proof (induction rs arbitrary: xs)
  case Nil
  then show ?case by (simp add: upsert_all_Nil)
next
  case (Cons r rs)
  show ?case
    using Cons.IH[of "upsert d nr dk xs r"] filter_upsert[of d nr dk Q xs r, OF assms]
    by (simp add: upsert_all_Cons)
qed

lemma js_insert_insort:
  assumes "g x \<noteq> None" and "\<forall>y\<in>set ys. g y \<noteq> None"
  shows "js_insert (date_cmp g) x ys = insort_key (\<lambda>y. the (g y)) x ys"
  using assms by (induction ys) (auto simp: sort_compare_def date_cmp_def)

lemma js_sort_sort_key:
  assumes "\<forall>y\<in>set ys. g y \<noteq> None"
  shows "js_sort (date_cmp g) ys = sort_key (\<lambda>y. the (g y)) ys"
  using assms
proof (induction ys)
  case Nil
  then show ?case by (simp add: js_sort_def)
next
  case (Cons y ys)
  then have "js_sort (date_cmp g) ys = sort_key (\<lambda>y. the (g y)) ys" by simp
  moreover have "\<forall>z\<in>set (sort_key (\<lambda>y. the (g y)) ys). g z \<noteq> None"
    using Cons.prems by simp
  ultimately show ?case
    using Cons.prems js_insert_insort[of g y "sort_key (\<lambda>y. the (g y)) ys"]
    by (simp add: js_sort_def)
qed



lemma patch_empty: "patch d nr (\<lambda>k. None) xs = xs"
  by (induction xs) auto

lemma map_patch:
  assumes "\<And>r. d (nr r) = dk r" and "\<And>k r. g k = Some r \<Longrightarrow> dk r = k"
  shows "map d (patch d nr g xs) = map d xs"
  using assms(2)
proof (induction xs arbitrary: g)
  case Nil
  then show ?case by simp
next
  case (Cons x xs)
  show ?case
  proof (cases "g (d x)")
    case None
    then show ?thesis using Cons.IH[of g] Cons.prems by simp
  next
    case (Some r)
    have "map d (patch d nr (g(d x := None)) xs) = map d xs"
      by (rule Cons.IH) (use Cons.prems in \<open>auto split: if_splits\<close>)
    then show ?thesis using Some Cons.prems[OF Some] assms(1) by simp
  qed
qed

lemma upsert_patch:
  assumes "\<And>r. d (nr r) = dk r" and "\<And>k r. g k = Some r \<Longrightarrow> dk r = k"
    and "dk r \<in> d ` set xs"
  shows "upsert d nr dk (patch d nr g xs) r = patch d nr (g(dk r \<mapsto> r)) xs"
  using assms(2,3)
proof (induction xs arbitrary: g)
  case Nil
  then show ?case by simp
next
  case (Cons x xs)
  show ?case
  proof (cases "d x = dk r")
    case True
    show ?thesis
    proof (cases "g (d x)")
      case None
      define h where "h = g(dk r \<mapsto> r)"
      have h1: "h (d x) = Some r" and h2: "h(d x := None) = g"
        using True None by (auto simp: h_def)
      have "patch d nr h (x # xs) = nr r # patch d nr g xs"
        by (simp only: patch.simps h1 h2 option.case)
      moreover have "upsert d nr dk (patch d nr g (x # xs)) r = nr r # patch d nr g xs"
        using True None by (simp add: upsert_Cons)
      ultimately show ?thesis by (simp only: h_def)
    next
      case (Some r0)
      define h where "h = g(dk r \<mapsto> r)"
      have h1: "h (d x) = Some r" and h2: "h(d x := None) = g(d x := None)"
        using True by (auto simp: h_def)
      have "patch d nr h (x # xs) = nr r # patch d nr (g(d x := None)) xs"
        by (simp only: patch.simps h1 h2 option.case)
      moreover have "dk r0 = dk r" using Cons.prems(1)[OF Some] True by simp
      then have "upsert d nr dk (patch d nr g (x # xs)) r = nr r # patch d nr (g(d x := None)) xs"
        using Some assms(1) by (simp add: upsert_Cons)
      ultimately show ?thesis by (simp only: h_def)
    qed
  next
    case False
    then have mem: "dk r \<in> d ` set xs" using Cons.prems(2) by auto
    show ?thesis
    proof (cases "g (d x)")
      case None
      then show ?thesis using False Cons.IH[of g, OF Cons.prems(1) mem]
        by (simp add: upsert_Cons)
    next
      case (Some r0)
      have wf: "\<And>k r. (g(d x := None)) k = Some r \<Longrightarrow> dk r = k"
        using Cons.prems(1) by (auto split: if_splits)
      have sw: "(g(d x := None))(dk r \<mapsto> r) = (g(dk r \<mapsto> r))(d x := None)"
        using False by auto
      have k0: "dk r0 = d x" using Cons.prems(1)[OF Some] .
      define g' where "g' = g(d x := None)"
      define h where "h = g(dk r \<mapsto> r)"
      have h1: "h (d x) = Some r0" and h2: "h(d x := None) = g'(dk r \<mapsto> r)"
        using False Some sw by (auto simp: h_def g'_def)
      have ih: "upsert d nr dk (patch d nr g' xs) r = patch d nr (g'(dk r \<mapsto> r)) xs"
        using Cons.IH[of "g(d x := None)", OF wf mem] by (simp only: g'_def)
      have "patch d nr h (x # xs) = nr r0 # patch d nr (g'(dk r \<mapsto> r)) xs"
        by (simp only: patch.simps h1 h2 option.case)
      moreover have "patch d nr g (x # xs) = nr r0 # patch d nr g' xs"
        using Some by (simp only: patch.simps g'_def option.case)
      then have "upsert d nr dk (patch d nr g (x # xs)) r = nr r0 # patch d nr (g'(dk r \<mapsto> r)) xs"
        using False k0 assms(1)[of r0] ih by (simp only: upsert_Cons if_False)
      ultimately show ?thesis by (simp only: h_def)
    qed
  qed
qed

lemma last_reading_snoc: "last_reading dk (rs @ [r]) = (last_reading dk rs)(dk r \<mapsto> r)"
  by (auto simp: last_reading_def fun_eq_iff)

lemma last_reading_wf: "last_reading dk rs k = Some r \<Longrightarrow> dk r = k"
  by (auto simp: last_reading_def dest: find_Some_iff[THEN iffD1])

lemma upsert_all_patch:
  assumes "\<And>r. d (nr r) = dk r" and "dk ` set rs \<subseteq> d ` set xs"
  shows "upsert_all d nr dk xs rs = patch d nr (last_reading dk rs) xs"
  using assms(2)
proof (induction rs rule: rev_induct)
  case Nil
  then show ?case by (simp add: upsert_all_Nil last_reading_def patch_empty)
next
  case (snoc r rs)
  then have "upsert_all d nr dk xs rs = patch d nr (last_reading dk rs) xs" by auto
  moreover have "dk r \<in> d ` set xs" using snoc.prems by auto
  ultimately have "upsert d nr dk (upsert_all d nr dk xs rs) r
      = patch d nr ((last_reading dk rs)(dk r \<mapsto> r)) xs"
    using upsert_patch[of d nr dk "last_reading dk rs" r xs] assms(1) last_reading_wf[of dk rs]
    by simp
  then show ?case
    by (simp only: upsert_all_snoc last_reading_snoc)
qed

lemma map_obs_patch:
  assumes "\<And>k r x. g k = Some r \<Longrightarrow> find (\<lambda>x. d x = k) xs = Some x \<Longrightarrow> obs (nr r) = obs x"
  shows "map obs (patch d nr g xs) = map obs xs"
  using assms
proof (induction xs arbitrary: g)
  case Nil
  then show ?case by simp
next
  case (Cons x xs)
  show ?case
  proof (cases "g (d x)")
    case None
    have "map obs (patch d nr g xs) = map obs xs"
    proof (rule Cons.IH)
      fix k r y assume a: "g k = Some r" "find (\<lambda>x. d x = k) xs = Some y"
      then have "d x \<noteq> k" using None by auto
      then show "obs (nr r) = obs y" using Cons.prems[of k r y] a by simp
    qed
    then show ?thesis using None by simp
  next
    case (Some r)
    have "map obs (patch d nr (g(d x := None)) xs) = map obs xs"
    proof (rule Cons.IH)
      fix k r' y assume a: "(g(d x := None)) k = Some r'" "find (\<lambda>x. d x = k) xs = Some y"
      then have "d x \<noteq> k" "g k = Some r'" by (auto split: if_splits)
      then show "obs (nr r') = obs y" using Cons.prems[of k r' y] a by simp
    qed
    moreover have "obs (nr r) = obs x" using Cons.prems[of "d x" r x] Some by simp
    ultimately show ?thesis using Some by simp
  qed
qed

lemma find_via_filter: "find P xs = (case filter P xs of [] \<Rightarrow> None | x # _ \<Rightarrow> Some x)"
  by (induction xs) auto

lemma filter_key_sort:
  assumes "\<And>x. f x = e (d x)"
  shows "filter (\<lambda>x. d x = k) (sort_key f xs) = filter (\<lambda>x. d x = k) xs"
proof -
  have "filter (\<lambda>x. d x = k) ys = filter (\<lambda>x. d x = k) (filter (\<lambda>y. f y = e k) ys)" for ys
    using assms by (induction ys) auto
  then show ?thesis
    by (metis sort_key_stable)
qed

lemma find_key_sort:
  assumes "\<And>x. f x = e (d x)"
  shows "find (\<lambda>x. d x = k) (sort_key f xs) = find (\<lambda>x. d x = k) xs"
  by (simp only: find_via_filter filter_key_sort[of f e d, OF assms])

lemma not_before_key:
  assumes "\<And>x. gt x = tk (d x)"
  shows "not_before gt c = (\<lambda>x. (case tk (d x) of None \<Rightarrow> False | Some t \<Rightarrow> c \<le> t))"
  using assms by (simp add: not_before_def fun_eq_iff)

lemma reconcile_sort_key:
  assumes dn: "\<And>r. d (nr r) = dk r"
    and gk: "\<And>x. gt x = tk (d x)"
    and vh: "\<forall>x\<in>set h. gt x \<noteq> None"
    and vr: "\<forall>r\<in>set rs. tk (dk r) \<noteq> None"
  shows "reconcile gt c d nr dk h rs =
     sort_key (\<lambda>y. the (gt y))
       (upsert_all d nr dk (filter (not_before gt c) h)
          (filter (\<lambda>r. case tk (dk r) of None \<Rightarrow> False | Some t \<Rightarrow> c \<le> t) rs))"
proof -
  let ?M = "upsert_all d nr dk h rs"
  have "\<forall>x\<in>set ?M. gt x \<noteq> None"
    using set_upsert_all[of d nr dk h rs] vh vr dn gk by auto
  then have "js_sort (date_cmp gt) ?M = sort_key (\<lambda>y. the (gt y)) ?M"
    by (rule js_sort_sort_key)
  then have "reconcile gt c d nr dk h rs = sort_key (\<lambda>y. the (gt y)) (filter (not_before gt c) ?M)"
    by (simp add: reconcile_def filter_sort)
  also have "filter (not_before gt c) ?M =
      upsert_all d nr dk (filter (not_before gt c) h)
          (filter (\<lambda>r. case tk (dk r) of None \<Rightarrow> False | Some t \<Rightarrow> c \<le> t) rs)"
    unfolding not_before_key[of gt tk d, OF gk]
    using filter_upsert_all[of d nr dk "\<lambda>k. case tk k of None \<Rightarrow> False | Some t \<Rightarrow> c \<le> t" h rs] dn
    by simp
  finally show ?thesis .
qed


lemma reconcile_idem:
  assumes dn1: "\<And>r. d (nr1 r) = dk r" and dn2: "\<And>r. d (nr2 r) = dk r"
    and gk: "\<And>x. gt x = tk (d x)"
    and ob: "\<And>r. obs (nr2 r) = obs (nr1 r)"
    and vh: "\<forall>x\<in>set h. gt x \<noteq> None"
    and vr: "\<forall>r\<in>set rs. tk (dk r) \<noteq> None"
  shows "map obs (reconcile gt c d nr2 dk (reconcile gt c d nr1 dk h rs) rs)
       = map obs (reconcile gt c d nr1 dk h rs)"
proof -
  let ?f = "\<lambda>y. the (gt y)"
  let ?P = "not_before gt c"
  let ?rs = "filter (\<lambda>r. case tk (dk r) of None \<Rightarrow> False | Some t \<Rightarrow> c \<le> t) rs"
  let ?U1 = "upsert_all d nr1 dk (filter ?P h) ?rs"
  let ?W1 = "reconcile gt c d nr1 dk h rs"
  have W1: "?W1 = sort_key ?f ?U1"
    by (rule reconcile_sort_key[OF dn1 gk vh vr])
  have W1P: "filter ?P ?W1 = ?W1"
    by (simp add: reconcile_def)
  have vW1: "\<forall>x\<in>set ?W1. gt x \<noteq> None"
    using set_reconcile[of gt c d nr1 dk h rs] vh vr dn1 gk by auto
  have W2: "reconcile gt c d nr2 dk ?W1 rs = sort_key ?f (upsert_all d nr2 dk ?W1 ?rs)"
    using reconcile_sort_key[OF dn2 gk vW1 vr, of c] by (simp only: W1P)
  have fk: "?f x = (the \<circ> tk) (d x)" for x
    by (simp add: gk)
  have first1: "find (\<lambda>x. d x = k) ?W1 = Some (nr1 r)" if "last_reading dk ?rs k = Some r" for k r
  proof -
    have "find (\<lambda>x. d x = k) ?W1 = find (\<lambda>x. d x = k) ?U1"
      unfolding W1 by (rule find_key_sort[of ?f "the \<circ> tk" d, OF fk])
    also have "\<dots> = Some (nr1 r)"
      using that find_upsert_all[of d nr1 dk k "filter ?P h" ?rs, OF dn1]
      by (simp add: last_reading_def)
    finally show ?thesis .
  qed
  have keys: "dk ` set ?rs \<subseteq> d ` set ?W1"
  proof
    fix k assume "k \<in> dk ` set ?rs"
    then have "\<exists>r. last_reading dk ?rs k = Some r"
      by (cases "last_reading dk ?rs k") (auto simp: last_reading_def find_None_iff)
    then obtain r where "last_reading dk ?rs k = Some r" ..
    from first1[OF this] show "k \<in> d ` set ?W1"
      by (auto simp: find_Some_iff)
  qed
  let ?Y = "patch d nr2 (last_reading dk ?rs) ?W1"
  have Y: "upsert_all d nr2 dk ?W1 ?rs = ?Y"
    by (rule upsert_all_patch[OF dn2 keys])
  have dY: "map d ?Y = map d ?W1"
    using map_patch[of d nr2 dk "last_reading dk ?rs" ?W1] dn2 last_reading_wf[of dk ?rs]
    by blast
  have "map ?f ?Y = map (the \<circ> tk) (map d ?Y)"
    by (simp add: gk)
  also have "\<dots> = map ?f ?W1"
    by (simp add: dY gk)
  finally have "sorted (map ?f ?Y)"
    by (simp add: W1)
  then have "sort_key ?f ?Y = ?Y"
    by (rule sort_key_id_if_sorted)
  then have "reconcile gt c d nr2 dk ?W1 rs = ?Y"
    by (simp only: W2 Y)
  moreover have "map obs ?Y = map obs ?W1"
  proof (rule map_obs_patch)
    fix k r x
    assume "last_reading dk ?rs k = Some r" and "find (\<lambda>x. d x = k) ?W1 = Some x"
    with first1[of k r] show "obs (nr2 r) = obs x"
      by (simp add: ob)
  qed
  ultimately show ?thesis by simp
qed

lemma gas_key: "date (gas_new_record now r) = gas_dateKey r"
  by (simp add: gas_new_record_def gas_dateKey_def)

lemma electric_key: "e_date (electric_new_record now r) = electric_dateKey r"
  by (simp add: electric_new_record_def electric_dateKey_def)

lemma electric_getTime_key: "electric_getTime tm x = key_time tm (e_date x)"
  by (simp add: electric_getTime_def key_time_def)

lemma gas_obs: "gas_observable (gas_new_record now2 r) = gas_observable (gas_new_record now1 r)"
  by (simp add: gas_observable_def gas_new_record_def)

lemma electric_obs:
  "electric_observable (electric_new_record now2 r) = electric_observable (electric_new_record now1 r)"
  by (simp add: electric_observable_def electric_new_record_def)

lemma gas_idem:
  assumes "\<forall>x\<in>set (loadHistoricalData file). tm (date x) \<noteq> None"
    and "\<forall>r\<in>set usage_data. tm (rd_full_date r) \<noteq> None"
  shows "map_history_file gas_observable
           (storeUsageData_GAS tm now2 c usage_data (storeUsageData_GAS tm now1 c usage_data file))
       = map_history_file gas_observable (storeUsageData_GAS tm now1 c usage_data file)"
proof (cases "usage_data = []")
  case True
  then show ?thesis by (simp add: storeUsageData_GAS_def)
next
  case False
  have "map gas_observable
     (reconcile (gas_getTime tm) c date (gas_new_record now2) gas_dateKey
        (reconcile (gas_getTime tm) c date (gas_new_record now1) gas_dateKey
           (loadHistoricalData file) usage_data) usage_data)
    = map gas_observable
        (reconcile (gas_getTime tm) c date (gas_new_record now1) gas_dateKey
           (loadHistoricalData file) usage_data)"
  proof (rule reconcile_idem[where tk = tm])
    show "\<forall>x\<in>set (loadHistoricalData file). gas_getTime tm x \<noteq> None"
      using assms(1) by (simp add: gas_getTime_def)
    show "\<forall>r\<in>set usage_data. tm (gas_dateKey r) \<noteq> None"
      using assms(2) by (simp add: gas_dateKey_def)
  qed (simp_all add: gas_key gas_obs gas_getTime_def)
  then show ?thesis
    using False by (simp add: storeUsageData_GAS_def loadHistoricalData_def)
qed

lemma electric_idem:
  assumes "\<forall>x\<in>set (loadHistoricalData file). electric_getTime tm x \<noteq> None"
    and "\<forall>r\<in>set usage_data. key_time tm (electric_dateKey r) \<noteq> None"
  shows "map_history_file electric_observable
           (storeUsageData_ELECTRIC tm now2 c usage_data
              (storeUsageData_ELECTRIC tm now1 c usage_data file))
       = map_history_file electric_observable (storeUsageData_ELECTRIC tm now1 c usage_data file)"
proof (cases "usage_data = []")
  case True
  then show ?thesis by (simp add: storeUsageData_ELECTRIC_def)
next
  case False
  have "map electric_observable
     (reconcile (electric_getTime tm) c e_date (electric_new_record now2) electric_dateKey
        (reconcile (electric_getTime tm) c e_date (electric_new_record now1) electric_dateKey
           (loadHistoricalData file) usage_data) usage_data)
    = map electric_observable
        (reconcile (electric_getTime tm) c e_date (electric_new_record now1) electric_dateKey
           (loadHistoricalData file) usage_data)"
  proof (rule reconcile_idem[where tk = "key_time tm"])
    show "\<forall>x\<in>set (loadHistoricalData file). electric_getTime tm x \<noteq> None"
      using assms(1) .
    show "\<forall>r\<in>set usage_data. key_time tm (electric_dateKey r) \<noteq> None"
      using assms(2) .
  qed (simp_all add: electric_key electric_obs electric_getTime_key)
  then show ?thesis
    using False by (simp add: storeUsageData_ELECTRIC_def loadHistoricalData_def)
qed

lemma reconcile_retention: "\<forall>x\<in>set (reconcile gt c d nr dk h rs). not_before gt c x"
  by (simp add: reconcile_def)

lemma reconcile_sorted:
  assumes dn: "\<And>r. d (nr r) = dk r"
    and gk: "\<And>x. gt x = tk (d x)"
    and vh: "\<forall>x\<in>set h. gt x \<noteq> None"
    and vr: "\<forall>r\<in>set rs. tk (dk r) \<noteq> None"
  shows "date_sorted gt (reconcile gt c d nr dk h rs)"
proof -
  let ?W = "reconcile gt c d nr dk h rs"
  have "sorted (map (\<lambda>y. the (gt y)) ?W)"
    by (simp only: reconcile_sort_key[OF dn gk vh vr] sorted_sort_key)
  then have s: "sorted_wrt (\<lambda>a b. the (gt a) \<le> the (gt b)) ?W"
    by (simp add: sorted_map)
  have v: "\<forall>x\<in>set ?W. gt x \<noteq> None"
    using set_reconcile[of gt c d nr dk h rs] vh vr dn gk by auto
  show ?thesis
    unfolding date_sorted_def
  proof (rule sorted_wrt_mono_rel[OF _ s])
    fix x y
    assume "x \<in> set ?W" "y \<in> set ?W" and le: "the (gt x) \<le> the (gt y)"
    with v obtain tx ty where "gt x = Some tx" "gt y = Some ty" by blast
    with le show "time_le (gt x) (gt y)" by (simp add: time_le_def)
  qed
qed







lemma distinct_js_insert: "distinct (js_insert cf x xs) = (x \<notin> set xs \<and> distinct xs)"
  by (induction xs) (auto simp: set_js_insert)

lemma distinct_js_sort: "distinct (js_sort cf xs) = distinct xs"
  by (induction xs) (simp_all add: js_sort_def distinct_js_insert set_js_sort[unfolded js_sort_def])


subsection \<open>Helper lemmas on the run\<close>

lemma read_gas_api_electric_files:
  "electric_history_file (fst (read_gas_api w fs)) = electric_history_file fs"
  by (simp add: read_gas_api_def Let_def split: fetched.splits json_body.splits)

lemma read_electric_api_gas_files:
  "gas_history_file (fst (read_electric_api w fs)) = gas_history_file fs"
  by (simp add: read_electric_api_def electric_store_export_def Let_def
      split: fetched.splits json_body.splits prod.splits option.splits)

lemma processGasData_no_series:
  "Series1 raw = None \<or> TickSeries raw = None \<Longrightarrow> processGasData tm now y raw = []"
  by (auto simp: processGasData_def split: option.splits)

lemma read_gas_api_no_series:
  assumes "gas_response w = Body (Json raw)" and "Series1 raw = None \<or> TickSeries raw = None"
  shows "snd (read_gas_api w fs) = Some []"
    and "gas_history_file (fst (read_gas_api w fs)) = gas_history_file fs"
  using assms processGasData_no_series[OF assms(2)]
  by (simp_all add: read_gas_api_def Let_def storeUsageData_GAS_def)


lemma fetch_once_gas_no_series:
  assumes "launch_ok w" and "login_ok w" and "is_set (GAS_METERNUM w)"
    and "gas_response w = Body (Json raw)"
    and "Series1 raw = None \<or> TickSeries raw = None"
  shows "processGasData (w_tm w) (w_now w) (w_current_year w) raw = [] \<and>
         snd (read_gas_api w fs) = Some [] \<and>
         gas_history_file (rs_files (at_exit (fetch_once w fs))) = gas_history_file fs \<and>
         rs_gas (at_exit (fetch_once w fs)) = \<lparr> success = True, failed = False, data_points = 0 \<rparr> \<and>
         exit_code (fetch_once w fs) = 0"
proof -
  obtain f where rg: "read_gas_api w fs = (f, Some [])" and fg: "gas_history_file f = gas_history_file fs"
    using read_gas_api_no_series[OF assms(4,5), of fs] by (cases "read_gas_api w fs") auto
  obtain f2 e where re: "read_electric_api w f = (f2, e)"
    by (cases "read_electric_api w f") auto
  have f2g: "gas_history_file f2 = gas_history_file fs"
    using read_electric_api_gas_files[of w f] re fg by simp
  have tb: "try_block w fs = Normal \<lparr> rs_browser = BrowserOpen,
        rs_files = (if is_set (ELECTRIC_METERNUM w) then f2 else f),
        rs_gas = \<lparr> success = True, failed = False, data_points = 0 \<rparr>,
        rs_electric = (if is_set (ELECTRIC_METERNUM w) then
            (case e of Some d \<Rightarrow> \<lparr> success = True, failed = False, data_points = length d \<rparr>
             | None \<Rightarrow> \<lparr> success = False, failed = True, data_points = 0 \<rparr>)
          else no_result) \<rparr>"
    using assms(1,2,3) rg re
    by (simp add: try_block_def Let_def split: option.splits)
  show ?thesis
    using tb fg f2g rg processGasData_no_series[OF assms(5)]
    by (simp add: fetch_once_def)
qed

lemma try_block_browser:
  "launch_ok w \<Longrightarrow> try_block w fs = Normal st \<or> try_block w fs = Thrown st \<or> try_block w fs = Exited n st
     \<Longrightarrow> rs_browser st = BrowserOpen"
  by (auto simp: try_block_def Let_def split: if_splits prod.splits option.splits)

lemma fetch_once_cases:
  "(\<exists>st. try_block w fs = Normal st \<and> fetch_once w fs =
        \<lparr> exit_code = 0, at_exit = (if rs_browser st \<noteq> NoBrowser
                                     then st\<lparr>rs_browser := BrowserClosed\<rparr> else st) \<rparr>) \<or>
   (\<exists>st. try_block w fs = Thrown st \<and> fetch_once w fs = \<lparr> exit_code = 1, at_exit = st \<rparr>) \<or>
   (\<exists>st. try_block w fs = Exited 1 st \<and> fetch_once w fs = \<lparr> exit_code = 1, at_exit = st \<rparr>)"
proof (cases "try_block w fs")
  case (Normal st)
  then show ?thesis by (simp add: fetch_once_def)
next
  case (Thrown st)
  then show ?thesis by (simp add: fetch_once_def)
next
  case (Exited n st)
  then have "n = 1"
    by (auto simp: try_block_def Let_def split: if_splits prod.splits)
  with Exited show ?thesis by (simp add: fetch_once_def)
qed


lemma try_block_form:
  assumes "launch_ok w" and "login_ok w"
  shows "\<exists>f g e. try_block w fs =
           (if \<not> (success g \<or> success e)
            then Exited 1 \<lparr>rs_browser = BrowserOpen, rs_files = f, rs_gas = g, rs_electric = e\<rparr>
            else Normal \<lparr>rs_browser = BrowserOpen, rs_files = f, rs_gas = g, rs_electric = e\<rparr>)"
proof -
  define A where "A = (if is_set (GAS_METERNUM w) then
                 (case read_gas_api w fs of
                    (f, Some gas_data) \<Rightarrow>
                      (f, \<lparr> success = True, failed = False, data_points = length gas_data \<rparr>)
                  | (f, None) \<Rightarrow> (f, \<lparr> success = False, failed = True, data_points = 0 \<rparr>))
               else (fs, no_result))"
  obtain f1 g where a: "A = (f1, g)" by (cases A) auto
  define B where "B = (if is_set (ELECTRIC_METERNUM w) then
                 (case read_electric_api w f1 of
                    (f, Some electric_data) \<Rightarrow>
                      (f, \<lparr> success = True, failed = False,
                            data_points = length electric_data \<rparr>)
                  | (f, None) \<Rightarrow> (f, \<lparr> success = False, failed = True, data_points = 0 \<rparr>))
               else (f1, no_result))"
  obtain f2 e where b: "B = (f2, e)" by (cases B) auto
  have "try_block w fs =
           (if \<not> (success g \<or> success e)
            then Exited 1 \<lparr>rs_browser = BrowserOpen, rs_files = f2, rs_gas = g, rs_electric = e\<rparr>
            else Normal \<lparr>rs_browser = BrowserOpen, rs_files = f2, rs_gas = g, rs_electric = e\<rparr>)"
    unfolding try_block_def Let_def
    apply (fold A_def)
    apply (simp only: a split_conv)
    apply (fold B_def)
    apply (simp only: b split_conv assms not_True_eq_False if_False)
    done
  then show ?thesis by blast
qed


lemma try_block_thrown:
  "\<not> (launch_ok w \<and> login_ok w) \<Longrightarrow> \<exists>st. try_block w fs = Thrown st"
  by (auto simp: try_block_def)

lemma fetch_once_exit_code:
  "exit_code (fetch_once w fs) =
     (if launch_ok w \<and> login_ok w \<and>
         (success (rs_gas (at_exit (fetch_once w fs))) \<or>
          success (rs_electric (at_exit (fetch_once w fs))))
      then 0 else 1)"
proof (cases "launch_ok w \<and> login_ok w")
  case True
  then obtain f g e where t: "try_block w fs =
           (if \<not> (success g \<or> success e)
            then Exited 1 \<lparr>rs_browser = BrowserOpen, rs_files = f, rs_gas = g, rs_electric = e\<rparr>
            else Normal \<lparr>rs_browser = BrowserOpen, rs_files = f, rs_gas = g, rs_electric = e\<rparr>)"
    using try_block_form[of w fs] by blast
  show ?thesis
  proof (cases "success g \<or> success e")
    case True
    with t \<open>launch_ok w \<and> login_ok w\<close> show ?thesis by (auto simp: fetch_once_def)
  next
    case False
    with t show ?thesis by (simp add: fetch_once_def)
  qed
next
  case False
  then obtain st where "try_block w fs = Thrown st"
    using try_block_thrown[of w fs] by blast
  with False show ?thesis by (auto simp: fetch_once_def)
qed

lemma fetch_once_browser_opened:
  assumes "launch_ok w"
  shows "rs_browser (at_exit (fetch_once w fs)) \<noteq> NoBrowser"
proof (cases "try_block w fs")
  case (Normal st)
  with try_block_browser[OF assms, of fs st] show ?thesis by (simp add: fetch_once_def)
next
  case (Thrown st)
  with try_block_browser[OF assms, of fs st] show ?thesis by (simp add: fetch_once_def)
next
  case (Exited n st)
  with try_block_browser[OF assms, of fs st n] show ?thesis by (simp add: fetch_once_def)
qed


subsection \<open>Helper lemmas on the monthly summary\<close>

lemma localeCompare_refl: "localeCompare a a = 0"
  by (induction a) auto

lemma localeCompare_eq: "localeCompare a b = 0 \<Longrightarrow> a = b"
  by (induction a b rule: localeCompare.induct) (auto split: if_splits)

lemma localeCompare_flip: "localeCompare b a = - localeCompare a b"
  by (induction a b rule: localeCompare.induct) auto

lemma localeCompare_range: "localeCompare a b \<in> {- 1, 0, 1}"
  by (induction a b rule: localeCompare.induct) auto

lemma localeCompare_trans:
  "localeCompare a b \<le> 0 \<Longrightarrow> localeCompare b c \<le> 0 \<Longrightarrow> localeCompare a c \<le> 0"
proof (induction a b arbitrary: c rule: localeCompare.induct)
  case 1
  then show ?case by simp
next
  case (2 y ys)
  then show ?case by (cases c) auto
next
  case (3 x xs)
  then show ?case by simp
next
  case (4 x xs y ys)
  show ?case
  proof (cases c)
    case Nil
    with 4 show ?thesis by simp
  next
    case (Cons z zs)
    with "4.prems" "4.IH"[of zs] show ?thesis
      by (auto split: if_splits)
  qed
qed

lemma sorted_js_insert:
  assumes tot: "\<And>x y. \<not> sort_compare c x y \<le> 0 \<Longrightarrow> sort_compare c y x \<le> 0"
    and tr: "\<And>x y z. sort_compare c x y \<le> 0 \<Longrightarrow> sort_compare c y z \<le> 0 \<Longrightarrow> sort_compare c x z \<le> 0"
    and s: "sorted_wrt (\<lambda>a b. sort_compare c a b \<le> 0) xs"
  shows "sorted_wrt (\<lambda>a b. sort_compare c a b \<le> 0) (js_insert c x xs)"
  using s
proof (induction xs)
  case Nil
  then show ?case by simp
next
  case (Cons y ys)
  show ?case
  proof (cases "sort_compare c x y \<le> 0")
    case True
    with Cons.prems tr show ?thesis by auto
  next
    case False
    then have "sort_compare c y x \<le> 0" by (rule tot)
    with False Cons show ?thesis by (auto simp: set_js_insert)
  qed
qed

lemma sorted_js_sort:
  assumes tot: "\<And>x y. \<not> sort_compare c x y \<le> 0 \<Longrightarrow> sort_compare c y x \<le> 0"
    and tr: "\<And>x y z. sort_compare c x y \<le> 0 \<Longrightarrow> sort_compare c y z \<le> 0 \<Longrightarrow> sort_compare c x z \<le> 0"
  shows "sorted_wrt (\<lambda>a b. sort_compare c a b \<le> 0) (js_sort c xs)"
proof (induction xs)
  case Nil
  then show ?case by (simp add: js_sort_def)
next
  case (Cons x xs)
  then have "sorted_wrt (\<lambda>a b. sort_compare c a b \<le> 0) (foldr (js_insert c) xs [])"
    by (simp add: js_sort_def)
  then have "sorted_wrt (\<lambda>a b. sort_compare c a b \<le> 0) (js_insert c x (foldr (js_insert c) xs []))"
    using tot tr by (intro sorted_js_insert) blast+
  then show ?case
    by (simp add: js_sort_def)
qed

lemma dsum_Nil: "dsum [] = 0"
  by (simp add: dsum_def)

lemma dsum_snoc: "dsum (xs @ [x]) = dadd (dsum xs) x"
  by (simp add: dsum_def)

lemma month_totals_snoc:
  "month_totals cal k (rs @ [r]) =
     (if month_key_of cal (date r) = k
      then (month_totals cal k rs)\<lparr> total_ccf := dadd (total_ccf (month_totals cal k rs)) (usage_ccf r),
              total_therms := dadd (total_therms (month_totals cal k rs)) (usage_therms r),
              days := days (month_totals cal k rs) + 1 \<rparr>
      else month_totals cal k rs)"
  by (simp add: month_totals_def Let_def dsum_snoc)

lemma month_totals_fresh:
  "k \<notin> (\<lambda>r. month_key_of cal (date r)) ` set rs \<Longrightarrow>
   month_totals cal k rs = \<lparr> month = k, total_ccf = 0, total_therms = 0, days = 0,
                              average_daily_ccf = 0, average_daily_therms = 0 \<rparr>"
proof -
  assume "k \<notin> (\<lambda>r. month_key_of cal (date r)) ` set rs"
  then have "filter (\<lambda>r. month_key_of cal (date r) = k) rs = []"
    by (auto simp: filter_empty_conv)
  then show ?thesis by (simp add: month_totals_def dsum_Nil)
qed

lemma gas_month_step_closed:
  assumes acc: "acc = map (\<lambda>k. (k, month_totals cal k rs)) ks"
    and ks: "set ks = (\<lambda>r. month_key_of cal (date r)) ` set rs"
  shows "gas_month_step cal acc r =
         map (\<lambda>k. (k, month_totals cal k (rs @ [r])))
           (if month_key_of cal (date r) \<in> set ks then ks else ks @ [month_key_of cal (date r)])"
proof -
  let ?k0 = "month_key_of cal (date r)"
  have none: "(map_of acc ?k0 = None) = (?k0 \<notin> set ks)"
    by (simp add: acc map_of_eq_None_iff image_image)
  show ?thesis
  proof (cases "?k0 \<in> set ks")
    case True
    then show ?thesis
      using none by (simp add: gas_month_step_def Let_def acc month_totals_snoc comp_def)
  next
    case False
    then have fresh: "month_totals cal ?k0 rs = \<lparr> month = ?k0, total_ccf = 0, total_therms = 0,
        days = 0, average_daily_ccf = 0, average_daily_therms = 0 \<rparr>"
      using ks by (intro month_totals_fresh) simp
    show ?thesis
      using none False
      by (simp add: gas_month_step_def Let_def acc month_totals_snoc comp_def fresh)
  qed
qed

lemma gas_month_loop:
  "\<exists>ks. distinct ks \<and> set ks = (\<lambda>r. month_key_of cal (date r)) ` set rs \<and>
        foldl (gas_month_step cal) [] rs = map (\<lambda>k. (k, month_totals cal k rs)) ks"
proof (induction rs rule: rev_induct)
  case Nil
  then show ?case by simp
next
  case (snoc r rs)
  then obtain ks where d: "distinct ks"
    and s: "set ks = (\<lambda>r. month_key_of cal (date r)) ` set rs"
    and f: "foldl (gas_month_step cal) [] rs = map (\<lambda>k. (k, month_totals cal k rs)) ks"
    by blast
  let ?ks = "if month_key_of cal (date r) \<in> set ks then ks else ks @ [month_key_of cal (date r)]"
  have "foldl (gas_month_step cal) [] (rs @ [r]) = map (\<lambda>k. (k, month_totals cal k (rs @ [r]))) ?ks"
    using gas_month_step_closed[OF f s, of r] by simp
  moreover have "distinct ?ks" using d by simp
  moreover have "set ?ks = (\<lambda>r. month_key_of cal (date r)) ` set (rs @ [r])"
    using s by auto
  ultimately show ?case by blast
qed

lemma sorted_wrt_distinct_strict:
  "sorted_wrt P xs \<Longrightarrow> distinct (map f xs) \<Longrightarrow> sorted_wrt (\<lambda>a b. P a b \<and> f a \<noteq> f b) xs"
  by (induction xs) auto

lemma month_average_totals:
  "month (gas_month_average (month_totals cal k rs)) = k"
  by (simp add: gas_month_average_def month_totals_def Let_def)

lemma createMonthlySummary_GAS_closed:
  "\<exists>ks. distinct ks \<and> set ks = (\<lambda>r. month_key_of cal (date r)) ` set rs \<and>
        createMonthlySummary_GAS cal rs =
          js_sort (\<lambda>a b. Some (localeCompare (month a) (month b)))
            (map (\<lambda>k. gas_month_average (month_totals cal k rs)) ks)"
proof -
  from gas_month_loop[of cal rs] obtain ks where d: "distinct ks"
    and s: "set ks = (\<lambda>r. month_key_of cal (date r)) ` set rs"
    and f: "foldl (gas_month_step cal) [] rs = map (\<lambda>k. (k, month_totals cal k rs)) ks"
    by blast
  have "createMonthlySummary_GAS cal rs =
          js_sort (\<lambda>a b. Some (localeCompare (month a) (month b)))
            (map (\<lambda>k. gas_month_average (month_totals cal k rs)) ks)"
    by (simp add: createMonthlySummary_GAS_def f comp_def)
  with d s show ?thesis by blast
qed

lemma monthly_rollup_general:
  "sorted_wrt (\<lambda>a b. localeCompare (month a) (month b) < 0) (createMonthlySummary_GAS cal rs) \<and>
   month ` set (createMonthlySummary_GAS cal rs) = (\<lambda>r. month_key_of cal (date r)) ` set rs \<and>
   (\<forall>m\<in>set (createMonthlySummary_GAS cal rs).
      m = gas_month_average (month_totals cal (month m) rs))"
proof -
  let ?c = "\<lambda>a b. Some (localeCompare (month a) (month b))"
  from createMonthlySummary_GAS_closed[of cal rs] obtain ks where d: "distinct ks"
    and s: "set ks = (\<lambda>r. month_key_of cal (date r)) ` set rs"
    and e: "createMonthlySummary_GAS cal rs =
          js_sort ?c (map (\<lambda>k. gas_month_average (month_totals cal k rs)) ks)"
    by blast
  let ?vals = "map (\<lambda>k. gas_month_average (month_totals cal k rs)) ks"
  let ?S = "js_sort ?c ?vals"
  have mv: "map month ?vals = ks"
    by (simp add: comp_def month_average_totals)
  have dv: "distinct (map month ?vals)" using d mv by simp
  then have "distinct ?vals" "inj_on month (set ?vals)"
    by (simp_all only: distinct_map)
  then have dS: "distinct (map month ?S)"
    by (simp only: distinct_map set_js_sort distinct_js_sort)
  have sc: "sort_compare ?c a b = localeCompare (month a) (month b)" for a b :: gas_month
    by (simp add: sort_compare_def)
  have "sorted_wrt (\<lambda>a b. sort_compare ?c a b \<le> 0) ?S"
  proof (rule sorted_js_sort)
    fix x y :: gas_month
    assume "\<not> sort_compare ?c x y \<le> 0"
    then show "sort_compare ?c y x \<le> 0"
      using localeCompare_flip[of "month y" "month x"] by (simp add: sc)
  next
    fix x y z :: gas_month
    assume "sort_compare ?c x y \<le> 0" "sort_compare ?c y z \<le> 0"
    then show "sort_compare ?c x z \<le> 0"
      using localeCompare_trans[of "month x" "month y" "month z"] by (simp add: sc)
  qed
  then have "sorted_wrt (\<lambda>a b. sort_compare ?c a b \<le> 0 \<and> month a \<noteq> month b) ?S"
    using dS by (rule sorted_wrt_distinct_strict)
  then have strict: "sorted_wrt (\<lambda>a b. localeCompare (month a) (month b) < 0) ?S"
  proof (rule sorted_wrt_mono_rel[rotated])
    fix x y :: gas_month
    assume "sort_compare ?c x y \<le> 0 \<and> month x \<noteq> month y"
    then show "localeCompare (month x) (month y) < 0"
      using localeCompare_eq[of "month x" "month y"] by (auto simp: sc order_less_le)
  qed
  have keys: "month ` set ?S = (\<lambda>r. month_key_of cal (date r)) ` set rs"
    using mv s by (simp add: set_js_sort flip: set_map)
  have each: "\<forall>m\<in>set ?S. m = gas_month_average (month_totals cal (month m) rs)"
    by (auto simp: set_js_sort month_average_totals)
  from strict keys each show ?thesis by (simp only: e) 
qed



subsection \<open>Helper lemmas on the numbers and on the stored readings\<close>

lemma fl_minus: "fl (- x) = - fl x"
  by (simp add: fl_def)

lemma floor_half_near:
  fixes y :: rat
  shows "\<bar>of_int \<lfloor>y + 1 / 2\<rfloor> - y\<bar> \<le> 1 / 2"
proof -
  have a: "of_int \<lfloor>y + 1 / 2\<rfloor> \<le> y + 1 / 2" by (rule of_int_floor_le)
  have b: "y + 1 / 2 < of_int \<lfloor>y + 1 / 2\<rfloor> + 1" by linarith
  from a b show ?thesis by linarith
qed

lemma toFixed_rounds:
  "\<exists>m::int. toFixed n x = fl (of_int m / 10 ^ n) \<and> \<bar>of_int m / 10 ^ n - x\<bar> \<le> 1 / (2 * 10 ^ n)"
proof -
  have near: "\<bar>of_int \<lfloor>y * 10 ^ n + 1 / 2\<rfloor> / 10 ^ n - y\<bar> \<le> 1 / (2 * 10 ^ n)" for y :: rat
  proof -
    have "\<bar>of_int \<lfloor>y * 10 ^ n + 1 / 2\<rfloor> / 10 ^ n - y\<bar>
        = \<bar>of_int \<lfloor>y * 10 ^ n + 1 / 2\<rfloor> - y * 10 ^ n\<bar> / 10 ^ n"
      by (simp add: field_simps)
    also have "\<dots> \<le> (1 / 2) / 10 ^ n"
      by (intro divide_right_mono floor_half_near) simp
    finally show ?thesis by simp
  qed
  show ?thesis
  proof (cases "x < 0")
    case False
    then have "toFixed n x = fl (of_int \<lfloor>x * 10 ^ n + 1 / 2\<rfloor> / 10 ^ n)"
      by (simp add: toFixed_def)
    with near[of x] show ?thesis by blast
  next
    case True
    let ?m = "\<lfloor>(- x) * 10 ^ n + 1 / 2\<rfloor>"
    have "toFixed n x = fl (of_int (- ?m) / 10 ^ n)"
      using True by (simp add: toFixed_def fl_minus[symmetric])
    moreover have "\<bar>of_int (- ?m) / 10 ^ n - x\<bar> = \<bar>of_int ?m / 10 ^ n - (- x)\<bar>"
      by (simp add: abs_minus_commute)
    ultimately show ?thesis using near[of "- x"] by metis
  qed
qed

lemma reconcile_last_stored:
  assumes dn: "\<And>r. d (nr r) = dk r"
    and l: "last_reading dk rs k = Some r"
    and p: "not_before gt c (nr r)"
  shows "nr r \<in> set (reconcile gt c d nr dk h rs)"
proof -
  have "find (\<lambda>x. d x = k) (upsert_all d nr dk h rs) = Some (nr r)"
    using l find_upsert_all[of d nr dk k h rs, OF dn] by (simp add: last_reading_def)
  then have "nr r \<in> set (upsert_all d nr dk h rs)"
    by (auto simp: find_Some_iff)
  with p show ?thesis
    by (simp add: reconcile_def set_js_sort)
qed

lemma gas_new_record_fields:
  "usage_therms (gas_new_record now r) = toFixed 3 (dmul (rd_usage_ccf r) (fl (1037 / 1000))) \<and>
   usage_ccf (gas_new_record now r) = rd_usage_ccf r \<and>
   average_ccf (gas_new_record now r) = rd_average_ccf r"
  by (simp add: gas_new_record_def)


subsection \<open>Gas unit conversion\<close>

text \<open>
  C8. When \<open>storeUsageData\<close> writes the gas history file, every written record is either a
  record that was in the file before or the record built from a reading of the batch, and
  the record built from the last reading of each date key is written whenever it passes the
  retention filter. The record built from a reading has \<open>usage_ccf\<close> and \<open>average_ccf\<close> taken
  over unchanged and \<open>usage_therms\<close> equal to the double product \<open>usage_ccf * 1.037\<close> rounded to
  three decimals: it is the double nearest to \<open>m / 1000\<close> for an integer \<open>m\<close> with \<open>m / 1000\<close>
  within half a thousandth of the product. A reading of 10 CCF gives 10.370 therms; a reading
  of 0.5 CCF gives 0.518 therms, the double product lying just below 0.5185.
\<close>

theorem gas_unit_conversion:
  assumes "usage_data \<noteq> []"
  shows "(\<exists>written. storeUsageData_GAS tm now two_years_ago usage_data file = Series written \<and>
      (\<forall>x\<in>set written. x \<in> set (loadHistoricalData file) \<or>
         (\<exists>reading\<in>set usage_data. x = gas_new_record now reading)) \<and>
      (\<forall>reading k. last_reading gas_dateKey usage_data k = Some reading \<and>
           not_before (gas_getTime tm) two_years_ago (gas_new_record now reading)
         \<longrightarrow> gas_new_record now reading \<in> set written)) \<and>
   (\<forall>reading.
      usage_therms (gas_new_record now reading)
        = toFixed 3 (dmul (rd_usage_ccf reading) (fl (1037 / 1000))) \<and>
      (\<exists>m::int. usage_therms (gas_new_record now reading) = fl (of_int m / 1000) \<and>
         \<bar>of_int m / 1000 - dmul (rd_usage_ccf reading) (fl (1037 / 1000))\<bar> \<le> 1 / 2000) \<and>
      usage_ccf (gas_new_record now reading) = rd_usage_ccf reading \<and>
      average_ccf (gas_new_record now reading) = rd_average_ccf reading) \<and>
   usage_therms (gas_new_record now (reading0\<lparr>rd_usage_ccf := 10\<rparr>)) = fl (10370 / 1000) \<and>
   usage_therms (gas_new_record now (reading0\<lparr>rd_usage_ccf := 1 / 2\<rparr>)) = fl (518 / 1000)"
proof (intro conjI allI)
  let ?w = "reconcile (gas_getTime tm) two_years_ago date (gas_new_record now) gas_dateKey
              (loadHistoricalData file) usage_data"
  have w: "storeUsageData_GAS tm now two_years_ago usage_data file = Series ?w"
    using assms by (simp add: storeUsageData_GAS_def)
  have up: "\<forall>x\<in>set ?w. x \<in> set (loadHistoricalData file) \<or>
         (\<exists>reading\<in>set usage_data. x = gas_new_record now reading)"
    using set_reconcile[of "gas_getTime tm" two_years_ago date "gas_new_record now" gas_dateKey
        "loadHistoricalData file" usage_data]
    by blast
  have low: "\<forall>reading k. last_reading gas_dateKey usage_data k = Some reading \<and>
           not_before (gas_getTime tm) two_years_ago (gas_new_record now reading)
         \<longrightarrow> gas_new_record now reading \<in> set ?w"
    using reconcile_last_stored[where d = date and nr = "gas_new_record now" and dk = gas_dateKey
        and rs = usage_data and gt = "gas_getTime tm" and c = two_years_ago
        and h = "loadHistoricalData file"] gas_key[of now]
    by blast
  from w up low
  show "\<exists>written. storeUsageData_GAS tm now two_years_ago usage_data file = Series written \<and>
      (\<forall>x\<in>set written. x \<in> set (loadHistoricalData file) \<or>
         (\<exists>reading\<in>set usage_data. x = gas_new_record now reading)) \<and>
      (\<forall>reading k. last_reading gas_dateKey usage_data k = Some reading \<and>
           not_before (gas_getTime tm) two_years_ago (gas_new_record now reading)
         \<longrightarrow> gas_new_record now reading \<in> set written)"
    by blast
next
  fix reading
  show "usage_therms (gas_new_record now reading)
        = toFixed 3 (dmul (rd_usage_ccf reading) (fl (1037 / 1000)))"
    by (simp add: gas_new_record_fields)
  show "\<exists>m::int. usage_therms (gas_new_record now reading) = fl (of_int m / 1000) \<and>
         \<bar>of_int m / 1000 - dmul (rd_usage_ccf reading) (fl (1037 / 1000))\<bar> \<le> 1 / 2000"
    using toFixed_rounds[of 3 "dmul (rd_usage_ccf reading) (fl (1037 / 1000))"]
    by (simp add: gas_new_record_fields)
  show "usage_ccf (gas_new_record now reading) = rd_usage_ccf reading"
    by (simp add: gas_new_record_fields)
  show "average_ccf (gas_new_record now reading) = rd_average_ccf reading"
    by (simp add: gas_new_record_fields)
next
  have "toFixed 3 (dmul 10 (fl (1037 / 1000))) = fl (10370 / 1000)"
    by code_simp
  then show "usage_therms (gas_new_record now (reading0\<lparr>rd_usage_ccf := 10\<rparr>)) = fl (10370 / 1000)"
    by (simp add: gas_new_record_def)
next
  have "toFixed 3 (dmul (1 / 2) (fl (1037 / 1000))) = fl (518 / 1000)"
    by code_simp
  then show "usage_therms (gas_new_record now (reading0\<lparr>rd_usage_ccf := 1 / 2\<rparr>)) = fl (518 / 1000)"
    by (simp add: gas_new_record_def)
qed

theorem gas_unit_conversion_witness:
  "[\<lparr>rd_date = ''1/5'', rd_full_date = ''01/05/2024'', rd_usage_ccf = 10,
      rd_average_ccf = Some 3, rd_unit = ''CCF'', rd_timestamp = ''t0''\<rparr>] \<noteq> [] \<and>
   storeUsageData_GAS mdy_time ''t1'' 1654063200000
     [\<lparr>rd_date = ''1/5'', rd_full_date = ''01/05/2024'', rd_usage_ccf = 10,
        rd_average_ccf = Some 3, rd_unit = ''CCF'', rd_timestamp = ''t0''\<rparr>] (Series [])
   = Series
       [\<lparr>date = ''01/05/2024'', date_label = ''1/5'', usage_ccf = 10,
          usage_therms = fl (10370 / 1000), average_ccf = Some 3, unit = ''CCF'',
          timestamp = ''t0'', created_at = ''t1''\<rparr>] \<and>
   \<bar>fl (10370 / 1000) - 10370 / 1000\<bar> < 1 / 10 ^ 15"
proof -
  let ?r = "\<lparr>rd_date = ''1/5'', rd_full_date = ''01/05/2024'', rd_usage_ccf = 10,
      rd_average_ccf = Some 3, rd_unit = ''CCF'', rd_timestamp = ''t0''\<rparr>"
  have ne: "[?r] \<noteq> []" by simp
  have ten: "toFixed 3 (dmul 10 (fl (1037 / 1000))) = fl (10370 / 1000)" by code_simp
  have l: "last_reading gas_dateKey [?r] ''01/05/2024'' = Some ?r"
    by (simp add: last_reading_def gas_dateKey_def)
  have t: "mdy_time ''01/05/2024'' = Some 1704412800000" by code_simp
  have nb: "not_before (gas_getTime mdy_time) 1654063200000 (gas_new_record ''t1'' ?r)"
    by (simp add: not_before_def gas_getTime_def gas_new_record_def t)
  have rec: "gas_new_record ''t1'' ?r =
      \<lparr>date = ''01/05/2024'', date_label = ''1/5'', usage_ccf = 10,
          usage_therms = fl (10370 / 1000), average_ccf = Some 3, unit = ''CCF'',
          timestamp = ''t0'', created_at = ''t1''\<rparr>"
    by (simp add: gas_new_record_def ten)
  from gas_unit_conversion[OF ne, of mdy_time "''t1''" 1654063200000 "Series []" ?r]
  obtain written where w: "storeUsageData_GAS mdy_time ''t1'' 1654063200000 [?r] (Series []) = Series written"
    and up: "\<forall>x\<in>set written. x \<in> set (loadHistoricalData (Series [])) \<or>
         (\<exists>reading\<in>set [?r]. x = gas_new_record ''t1'' reading)"
    and low: "\<forall>reading k. last_reading gas_dateKey [?r] k = Some reading \<and>
           not_before (gas_getTime mdy_time) 1654063200000 (gas_new_record ''t1'' reading)
         \<longrightarrow> gas_new_record ''t1'' reading \<in> set written"
    by blast
  have ev: "storeUsageData_GAS mdy_time ''t1'' 1654063200000 [?r] (Series [])
      = Series [gas_new_record ''t1'' ?r]"
    by (simp add: storeUsageData_GAS_def reconcile_def upsert_all_def upsert_def js_sort_def
        loadHistoricalData_def nb)
  have close: "\<bar>fl (10370 / 1000) - 10370 / 1000\<bar> < (1 :: rat) / 10 ^ 15" by code_simp
  from low l nb have "gas_new_record ''t1'' ?r \<in> set written" by blast
  with ev w rec close ne show ?thesis by simp
qed


subsection \<open>Reconciliation is idempotent\<close>

text \<open>
  When the dates of the history file and of the batch all parse, applying \<open>storeUsageData\<close> a
  second time with the same batch, at the same retention cutoff, leaves the history file
  as the first application wrote it, record for record and field for field, except for
  \<open>created_at\<close> (and, for electric records, the \<open>timestamp\<close> that is taken from the clock
  when the reading has none).
\<close>

lemma idempotent_when_dates_parse:
  assumes "\<forall>x\<in>set (loadHistoricalData gas_file). tm (date x) \<noteq> None"
    and "\<forall>r\<in>set gas_batch. tm (rd_full_date r) \<noteq> None"
    and "\<forall>x\<in>set (loadHistoricalData electric_file). electric_getTime tm x \<noteq> None"
    and "\<forall>r\<in>set electric_batch. key_time tm (electric_dateKey r) \<noteq> None"
  shows "map_history_file gas_observable
           (storeUsageData_GAS tm now2 c gas_batch (storeUsageData_GAS tm now1 c gas_batch gas_file))
         = map_history_file gas_observable (storeUsageData_GAS tm now1 c gas_batch gas_file) \<and>
         map_history_file electric_observable
           (storeUsageData_ELECTRIC tm now2 c electric_batch
              (storeUsageData_ELECTRIC tm now1 c electric_batch electric_file))
         = map_history_file electric_observable
             (storeUsageData_ELECTRIC tm now1 c electric_batch electric_file)"
  using gas_idem[OF assms(1,2)] electric_idem[OF assms(3,4)] by blast

lemma idempotent_when_dates_parse_instance:
  "list_all (\<lambda>x. mdy_time (date x) \<noteq> None)
     (loadHistoricalData (Series
        [\<lparr>date = ''01/05/2024'', date_label = ''1/5'', usage_ccf = 2, usage_therms = fl (2074 / 1000),
           average_ccf = Some 1, unit = ''CCF'', timestamp = ''t0'', created_at = ''t0''\<rparr>])) \<and>
   list_all (\<lambda>r. mdy_time (rd_full_date r) \<noteq> None)
     [\<lparr>rd_date = ''1/5'', rd_full_date = ''01/05/2024'', rd_usage_ccf = 10,
        rd_average_ccf = Some 3, rd_unit = ''CCF'', rd_timestamp = ''t1''\<rparr>] \<and>
   list_all (\<lambda>x. electric_getTime mdy_time x \<noteq> None)
     (loadHistoricalData (Missing :: electric_record history_file)) \<and>
   list_all (\<lambda>r. key_time mdy_time (electric_dateKey r) \<noteq> None)
     [\<lparr>er_date = Some ''1/5'', er_full_date = Some ''01/05/2024'', er_date_label = None,
        er_energy = None, er_usage_kwh = 30, er_unit = ''kWh'', er_startTime = None,
        er_endTime = None, er_timestamp = None\<rparr>] \<and>
   map_history_file gas_observable
     (storeUsageData_GAS mdy_time ''t2'' 1600000000000
        [\<lparr>rd_date = ''1/5'', rd_full_date = ''01/05/2024'', rd_usage_ccf = 10,
           rd_average_ccf = Some 3, rd_unit = ''CCF'', rd_timestamp = ''t1''\<rparr>]
        (storeUsageData_GAS mdy_time ''t1'' 1600000000000
           [\<lparr>rd_date = ''1/5'', rd_full_date = ''01/05/2024'', rd_usage_ccf = 10,
              rd_average_ccf = Some 3, rd_unit = ''CCF'', rd_timestamp = ''t1''\<rparr>]
           (Series
              [\<lparr>date = ''01/05/2024'', date_label = ''1/5'', usage_ccf = 2,
                 usage_therms = fl (2074 / 1000), average_ccf = Some 1, unit = ''CCF'',
                 timestamp = ''t0'', created_at = ''t0''\<rparr>])))
   = Series [\<lparr>date = ''01/05/2024'', date_label = ''1/5'', usage_ccf = 10,
                usage_therms = fl (10370 / 1000), average_ccf = Some 3, unit = ''CCF'',
                timestamp = ''t1'', created_at = []\<rparr>]"
proof -
  let ?old = "\<lparr>date = ''01/05/2024'', date_label = ''1/5'', usage_ccf = 2, usage_therms = fl (2074 / 1000),
           average_ccf = Some 1, unit = ''CCF'', timestamp = ''t0'', created_at = ''t0''\<rparr>"
  let ?g = "\<lparr>rd_date = ''1/5'', rd_full_date = ''01/05/2024'', rd_usage_ccf = 10,
                 rd_average_ccf = Some 3, rd_unit = ''CCF'', rd_timestamp = ''t1''\<rparr>"
  let ?e = "\<lparr>er_date = Some ''1/5'', er_full_date = Some ''01/05/2024'', er_date_label = None,
                 er_energy = None, er_usage_kwh = 30, er_unit = ''kWh'', er_startTime = None,
                 er_endTime = None, er_timestamp = None\<rparr>"
  have h1: "\<forall>x\<in>set (loadHistoricalData (Series [?old])). mdy_time (date x) \<noteq> None"
    by code_simp
  have h2: "\<forall>r\<in>set [?g]. mdy_time (rd_full_date r) \<noteq> None"
    by code_simp
  have h3: "\<forall>x\<in>set (loadHistoricalData (Missing :: electric_record history_file)).
      electric_getTime mdy_time x \<noteq> None"
    by (simp add: loadHistoricalData_def)
  have h4: "\<forall>r\<in>set [?e]. key_time mdy_time (electric_dateKey r) \<noteq> None"
    by code_simp
  have once: "map_history_file gas_observable
      (storeUsageData_GAS mdy_time ''t1'' 1600000000000 [?g] (Series [?old]))
    = Series [\<lparr>date = ''01/05/2024'', date_label = ''1/5'', usage_ccf = 10,
                usage_therms = fl (10370 / 1000), average_ccf = Some 3, unit = ''CCF'',
                timestamp = ''t1'', created_at = []\<rparr>]"
    by code_simp
  from idempotent_when_dates_parse[OF h1 h2 h3 h4, of "''t2''" 1600000000000 "''t1''"] once h1 h2 h3 h4
  show ?thesis by (simp add: list_all_iff)
qed

text \<open>
  C1. Applying \<open>storeUsageData\<close> twice with the same batch is to give the history file of one
  application, up to \<open>created_at\<close>. The code fails this on an empty history file and a batch
  with two dates that do not parse, between two that do. The sort runs before the retention
  filter, on records whose dates do not all parse: its comparator returns \<open>NaN\<close> for every
  pair with the record of \<open>13/45/2024\<close> or of \<open>14/45/2024\<close>, and a sort that reads \<open>NaN\<close>
  as \<open>0\<close> and compares neighbours leaves the four records as the loop pushed them. The
  retention filter then drops the records whose dates do not parse, so the first application
  writes the dates \<open>03/01/2024, 01/01/2024\<close>. The second application finds these two
  records, pushes the other two again, and the sort now compares the two records that
  stay: it writes \<open>01/01/2024, 03/01/2024\<close>, so the two files differ in their observable
  fields.
\<close>

theorem reconciliation_not_idempotent:
  "map date (loadHistoricalData
     (storeUsageData_GAS mdy_time ''2024-06-01T06:00:00.000Z'' 1654063200000
        [\<lparr>rd_date = ''3/1'', rd_full_date = ''03/01/2024'', rd_usage_ccf = 3,
           rd_average_ccf = None, rd_unit = ''CCF'', rd_timestamp = ''t1''\<rparr>,
         \<lparr>rd_date = ''13/45'', rd_full_date = ''13/45/2024'', rd_usage_ccf = 1,
           rd_average_ccf = None, rd_unit = ''CCF'', rd_timestamp = ''t1''\<rparr>,
         \<lparr>rd_date = ''14/45'', rd_full_date = ''14/45/2024'', rd_usage_ccf = 2,
           rd_average_ccf = None, rd_unit = ''CCF'', rd_timestamp = ''t1''\<rparr>,
         \<lparr>rd_date = ''1/1'', rd_full_date = ''01/01/2024'', rd_usage_ccf = 7,
           rd_average_ccf = None, rd_unit = ''CCF'', rd_timestamp = ''t1''\<rparr>]
        (Series [])))
   = [''03/01/2024'', ''01/01/2024''] \<and>
   map date (loadHistoricalData
     (storeUsageData_GAS mdy_time ''2024-06-01T06:05:00.000Z'' 1654063200000
        [\<lparr>rd_date = ''3/1'', rd_full_date = ''03/01/2024'', rd_usage_ccf = 3,
           rd_average_ccf = None, rd_unit = ''CCF'', rd_timestamp = ''t1''\<rparr>,
         \<lparr>rd_date = ''13/45'', rd_full_date = ''13/45/2024'', rd_usage_ccf = 1,
           rd_average_ccf = None, rd_unit = ''CCF'', rd_timestamp = ''t1''\<rparr>,
         \<lparr>rd_date = ''14/45'', rd_full_date = ''14/45/2024'', rd_usage_ccf = 2,
           rd_average_ccf = None, rd_unit = ''CCF'', rd_timestamp = ''t1''\<rparr>,
         \<lparr>rd_date = ''1/1'', rd_full_date = ''01/01/2024'', rd_usage_ccf = 7,
           rd_average_ccf = None, rd_unit = ''CCF'', rd_timestamp = ''t1''\<rparr>]
        (storeUsageData_GAS mdy_time ''2024-06-01T06:00:00.000Z'' 1654063200000
        [\<lparr>rd_date = ''3/1'', rd_full_date = ''03/01/2024'', rd_usage_ccf = 3,
           rd_average_ccf = None, rd_unit = ''CCF'', rd_timestamp = ''t1''\<rparr>,
         \<lparr>rd_date = ''13/45'', rd_full_date = ''13/45/2024'', rd_usage_ccf = 1,
           rd_average_ccf = None, rd_unit = ''CCF'', rd_timestamp = ''t1''\<rparr>,
         \<lparr>rd_date = ''14/45'', rd_full_date = ''14/45/2024'', rd_usage_ccf = 2,
           rd_average_ccf = None, rd_unit = ''CCF'', rd_timestamp = ''t1''\<rparr>,
         \<lparr>rd_date = ''1/1'', rd_full_date = ''01/01/2024'', rd_usage_ccf = 7,
           rd_average_ccf = None, rd_unit = ''CCF'', rd_timestamp = ''t1''\<rparr>]
        (Series []))))
   = [''01/01/2024'', ''03/01/2024''] \<and>
   map_history_file gas_observable
     (storeUsageData_GAS mdy_time ''2024-06-01T06:05:00.000Z'' 1654063200000
        [\<lparr>rd_date = ''3/1'', rd_full_date = ''03/01/2024'', rd_usage_ccf = 3,
           rd_average_ccf = None, rd_unit = ''CCF'', rd_timestamp = ''t1''\<rparr>,
         \<lparr>rd_date = ''13/45'', rd_full_date = ''13/45/2024'', rd_usage_ccf = 1,
           rd_average_ccf = None, rd_unit = ''CCF'', rd_timestamp = ''t1''\<rparr>,
         \<lparr>rd_date = ''14/45'', rd_full_date = ''14/45/2024'', rd_usage_ccf = 2,
           rd_average_ccf = None, rd_unit = ''CCF'', rd_timestamp = ''t1''\<rparr>,
         \<lparr>rd_date = ''1/1'', rd_full_date = ''01/01/2024'', rd_usage_ccf = 7,
           rd_average_ccf = None, rd_unit = ''CCF'', rd_timestamp = ''t1''\<rparr>]
        (storeUsageData_GAS mdy_time ''2024-06-01T06:00:00.000Z'' 1654063200000
        [\<lparr>rd_date = ''3/1'', rd_full_date = ''03/01/2024'', rd_usage_ccf = 3,
           rd_average_ccf = None, rd_unit = ''CCF'', rd_timestamp = ''t1''\<rparr>,
         \<lparr>rd_date = ''13/45'', rd_full_date = ''13/45/2024'', rd_usage_ccf = 1,
           rd_average_ccf = None, rd_unit = ''CCF'', rd_timestamp = ''t1''\<rparr>,
         \<lparr>rd_date = ''14/45'', rd_full_date = ''14/45/2024'', rd_usage_ccf = 2,
           rd_average_ccf = None, rd_unit = ''CCF'', rd_timestamp = ''t1''\<rparr>,
         \<lparr>rd_date = ''1/1'', rd_full_date = ''01/01/2024'', rd_usage_ccf = 7,
           rd_average_ccf = None, rd_unit = ''CCF'', rd_timestamp = ''t1''\<rparr>]
        (Series [])))
   \<noteq> map_history_file gas_observable
     (storeUsageData_GAS mdy_time ''2024-06-01T06:00:00.000Z'' 1654063200000
        [\<lparr>rd_date = ''3/1'', rd_full_date = ''03/01/2024'', rd_usage_ccf = 3,
           rd_average_ccf = None, rd_unit = ''CCF'', rd_timestamp = ''t1''\<rparr>,
         \<lparr>rd_date = ''13/45'', rd_full_date = ''13/45/2024'', rd_usage_ccf = 1,
           rd_average_ccf = None, rd_unit = ''CCF'', rd_timestamp = ''t1''\<rparr>,
         \<lparr>rd_date = ''14/45'', rd_full_date = ''14/45/2024'', rd_usage_ccf = 2,
           rd_average_ccf = None, rd_unit = ''CCF'', rd_timestamp = ''t1''\<rparr>,
         \<lparr>rd_date = ''1/1'', rd_full_date = ''01/01/2024'', rd_usage_ccf = 7,
           rd_average_ccf = None, rd_unit = ''CCF'', rd_timestamp = ''t1''\<rparr>]
        (Series []))"
proof -
  have w1: "map date (loadHistoricalData
     (storeUsageData_GAS mdy_time ''2024-06-01T06:00:00.000Z'' 1654063200000
        [\<lparr>rd_date = ''3/1'', rd_full_date = ''03/01/2024'', rd_usage_ccf = 3,
           rd_average_ccf = None, rd_unit = ''CCF'', rd_timestamp = ''t1''\<rparr>,
         \<lparr>rd_date = ''13/45'', rd_full_date = ''13/45/2024'', rd_usage_ccf = 1,
           rd_average_ccf = None, rd_unit = ''CCF'', rd_timestamp = ''t1''\<rparr>,
         \<lparr>rd_date = ''14/45'', rd_full_date = ''14/45/2024'', rd_usage_ccf = 2,
           rd_average_ccf = None, rd_unit = ''CCF'', rd_timestamp = ''t1''\<rparr>,
         \<lparr>rd_date = ''1/1'', rd_full_date = ''01/01/2024'', rd_usage_ccf = 7,
           rd_average_ccf = None, rd_unit = ''CCF'', rd_timestamp = ''t1''\<rparr>]
        (Series [])))
   = [''03/01/2024'', ''01/01/2024'']"
    by code_simp
  have w2: "map date (loadHistoricalData
     (storeUsageData_GAS mdy_time ''2024-06-01T06:05:00.000Z'' 1654063200000
        [\<lparr>rd_date = ''3/1'', rd_full_date = ''03/01/2024'', rd_usage_ccf = 3,
           rd_average_ccf = None, rd_unit = ''CCF'', rd_timestamp = ''t1''\<rparr>,
         \<lparr>rd_date = ''13/45'', rd_full_date = ''13/45/2024'', rd_usage_ccf = 1,
           rd_average_ccf = None, rd_unit = ''CCF'', rd_timestamp = ''t1''\<rparr>,
         \<lparr>rd_date = ''14/45'', rd_full_date = ''14/45/2024'', rd_usage_ccf = 2,
           rd_average_ccf = None, rd_unit = ''CCF'', rd_timestamp = ''t1''\<rparr>,
         \<lparr>rd_date = ''1/1'', rd_full_date = ''01/01/2024'', rd_usage_ccf = 7,
           rd_average_ccf = None, rd_unit = ''CCF'', rd_timestamp = ''t1''\<rparr>]
        (storeUsageData_GAS mdy_time ''2024-06-01T06:00:00.000Z'' 1654063200000
        [\<lparr>rd_date = ''3/1'', rd_full_date = ''03/01/2024'', rd_usage_ccf = 3,
           rd_average_ccf = None, rd_unit = ''CCF'', rd_timestamp = ''t1''\<rparr>,
         \<lparr>rd_date = ''13/45'', rd_full_date = ''13/45/2024'', rd_usage_ccf = 1,
           rd_average_ccf = None, rd_unit = ''CCF'', rd_timestamp = ''t1''\<rparr>,
         \<lparr>rd_date = ''14/45'', rd_full_date = ''14/45/2024'', rd_usage_ccf = 2,
           rd_average_ccf = None, rd_unit = ''CCF'', rd_timestamp = ''t1''\<rparr>,
         \<lparr>rd_date = ''1/1'', rd_full_date = ''01/01/2024'', rd_usage_ccf = 7,
           rd_average_ccf = None, rd_unit = ''CCF'', rd_timestamp = ''t1''\<rparr>]
        (Series []))))
   = [''01/01/2024'', ''03/01/2024'']"
    by code_simp
  have d: "map date (loadHistoricalData (map_history_file gas_observable f)) = map date (loadHistoricalData f)" for f
    by (cases f) (simp_all add: loadHistoricalData_def gas_observable_def comp_def)
  have "map_history_file gas_observable
     (storeUsageData_GAS mdy_time ''2024-06-01T06:05:00.000Z'' 1654063200000
        [\<lparr>rd_date = ''3/1'', rd_full_date = ''03/01/2024'', rd_usage_ccf = 3,
           rd_average_ccf = None, rd_unit = ''CCF'', rd_timestamp = ''t1''\<rparr>,
         \<lparr>rd_date = ''13/45'', rd_full_date = ''13/45/2024'', rd_usage_ccf = 1,
           rd_average_ccf = None, rd_unit = ''CCF'', rd_timestamp = ''t1''\<rparr>,
         \<lparr>rd_date = ''14/45'', rd_full_date = ''14/45/2024'', rd_usage_ccf = 2,
           rd_average_ccf = None, rd_unit = ''CCF'', rd_timestamp = ''t1''\<rparr>,
         \<lparr>rd_date = ''1/1'', rd_full_date = ''01/01/2024'', rd_usage_ccf = 7,
           rd_average_ccf = None, rd_unit = ''CCF'', rd_timestamp = ''t1''\<rparr>]
        (storeUsageData_GAS mdy_time ''2024-06-01T06:00:00.000Z'' 1654063200000
        [\<lparr>rd_date = ''3/1'', rd_full_date = ''03/01/2024'', rd_usage_ccf = 3,
           rd_average_ccf = None, rd_unit = ''CCF'', rd_timestamp = ''t1''\<rparr>,
         \<lparr>rd_date = ''13/45'', rd_full_date = ''13/45/2024'', rd_usage_ccf = 1,
           rd_average_ccf = None, rd_unit = ''CCF'', rd_timestamp = ''t1''\<rparr>,
         \<lparr>rd_date = ''14/45'', rd_full_date = ''14/45/2024'', rd_usage_ccf = 2,
           rd_average_ccf = None, rd_unit = ''CCF'', rd_timestamp = ''t1''\<rparr>,
         \<lparr>rd_date = ''1/1'', rd_full_date = ''01/01/2024'', rd_usage_ccf = 7,
           rd_average_ccf = None, rd_unit = ''CCF'', rd_timestamp = ''t1''\<rparr>]
        (Series [])))
   \<noteq> map_history_file gas_observable
     (storeUsageData_GAS mdy_time ''2024-06-01T06:00:00.000Z'' 1654063200000
        [\<lparr>rd_date = ''3/1'', rd_full_date = ''03/01/2024'', rd_usage_ccf = 3,
           rd_average_ccf = None, rd_unit = ''CCF'', rd_timestamp = ''t1''\<rparr>,
         \<lparr>rd_date = ''13/45'', rd_full_date = ''13/45/2024'', rd_usage_ccf = 1,
           rd_average_ccf = None, rd_unit = ''CCF'', rd_timestamp = ''t1''\<rparr>,
         \<lparr>rd_date = ''14/45'', rd_full_date = ''14/45/2024'', rd_usage_ccf = 2,
           rd_average_ccf = None, rd_unit = ''CCF'', rd_timestamp = ''t1''\<rparr>,
         \<lparr>rd_date = ''1/1'', rd_full_date = ''01/01/2024'', rd_usage_ccf = 7,
           rd_average_ccf = None, rd_unit = ''CCF'', rd_timestamp = ''t1''\<rparr>]
        (Series []))"
  proof
    assume "map_history_file gas_observable
     (storeUsageData_GAS mdy_time ''2024-06-01T06:05:00.000Z'' 1654063200000
        [\<lparr>rd_date = ''3/1'', rd_full_date = ''03/01/2024'', rd_usage_ccf = 3,
           rd_average_ccf = None, rd_unit = ''CCF'', rd_timestamp = ''t1''\<rparr>,
         \<lparr>rd_date = ''13/45'', rd_full_date = ''13/45/2024'', rd_usage_ccf = 1,
           rd_average_ccf = None, rd_unit = ''CCF'', rd_timestamp = ''t1''\<rparr>,
         \<lparr>rd_date = ''14/45'', rd_full_date = ''14/45/2024'', rd_usage_ccf = 2,
           rd_average_ccf = None, rd_unit = ''CCF'', rd_timestamp = ''t1''\<rparr>,
         \<lparr>rd_date = ''1/1'', rd_full_date = ''01/01/2024'', rd_usage_ccf = 7,
           rd_average_ccf = None, rd_unit = ''CCF'', rd_timestamp = ''t1''\<rparr>]
        (storeUsageData_GAS mdy_time ''2024-06-01T06:00:00.000Z'' 1654063200000
        [\<lparr>rd_date = ''3/1'', rd_full_date = ''03/01/2024'', rd_usage_ccf = 3,
           rd_average_ccf = None, rd_unit = ''CCF'', rd_timestamp = ''t1''\<rparr>,
         \<lparr>rd_date = ''13/45'', rd_full_date = ''13/45/2024'', rd_usage_ccf = 1,
           rd_average_ccf = None, rd_unit = ''CCF'', rd_timestamp = ''t1''\<rparr>,
         \<lparr>rd_date = ''14/45'', rd_full_date = ''14/45/2024'', rd_usage_ccf = 2,
           rd_average_ccf = None, rd_unit = ''CCF'', rd_timestamp = ''t1''\<rparr>,
         \<lparr>rd_date = ''1/1'', rd_full_date = ''01/01/2024'', rd_usage_ccf = 7,
           rd_average_ccf = None, rd_unit = ''CCF'', rd_timestamp = ''t1''\<rparr>]
        (Series [])))
   = map_history_file gas_observable
     (storeUsageData_GAS mdy_time ''2024-06-01T06:00:00.000Z'' 1654063200000
        [\<lparr>rd_date = ''3/1'', rd_full_date = ''03/01/2024'', rd_usage_ccf = 3,
           rd_average_ccf = None, rd_unit = ''CCF'', rd_timestamp = ''t1''\<rparr>,
         \<lparr>rd_date = ''13/45'', rd_full_date = ''13/45/2024'', rd_usage_ccf = 1,
           rd_average_ccf = None, rd_unit = ''CCF'', rd_timestamp = ''t1''\<rparr>,
         \<lparr>rd_date = ''14/45'', rd_full_date = ''14/45/2024'', rd_usage_ccf = 2,
           rd_average_ccf = None, rd_unit = ''CCF'', rd_timestamp = ''t1''\<rparr>,
         \<lparr>rd_date = ''1/1'', rd_full_date = ''01/01/2024'', rd_usage_ccf = 7,
           rd_average_ccf = None, rd_unit = ''CCF'', rd_timestamp = ''t1''\<rparr>]
        (Series []))"
    then have "map date (loadHistoricalData (map_history_file gas_observable
     (storeUsageData_GAS mdy_time ''2024-06-01T06:05:00.000Z'' 1654063200000
        [\<lparr>rd_date = ''3/1'', rd_full_date = ''03/01/2024'', rd_usage_ccf = 3,
           rd_average_ccf = None, rd_unit = ''CCF'', rd_timestamp = ''t1''\<rparr>,
         \<lparr>rd_date = ''13/45'', rd_full_date = ''13/45/2024'', rd_usage_ccf = 1,
           rd_average_ccf = None, rd_unit = ''CCF'', rd_timestamp = ''t1''\<rparr>,
         \<lparr>rd_date = ''14/45'', rd_full_date = ''14/45/2024'', rd_usage_ccf = 2,
           rd_average_ccf = None, rd_unit = ''CCF'', rd_timestamp = ''t1''\<rparr>,
         \<lparr>rd_date = ''1/1'', rd_full_date = ''01/01/2024'', rd_usage_ccf = 7,
           rd_average_ccf = None, rd_unit = ''CCF'', rd_timestamp = ''t1''\<rparr>]
        (storeUsageData_GAS mdy_time ''2024-06-01T06:00:00.000Z'' 1654063200000
        [\<lparr>rd_date = ''3/1'', rd_full_date = ''03/01/2024'', rd_usage_ccf = 3,
           rd_average_ccf = None, rd_unit = ''CCF'', rd_timestamp = ''t1''\<rparr>,
         \<lparr>rd_date = ''13/45'', rd_full_date = ''13/45/2024'', rd_usage_ccf = 1,
           rd_average_ccf = None, rd_unit = ''CCF'', rd_timestamp = ''t1''\<rparr>,
         \<lparr>rd_date = ''14/45'', rd_full_date = ''14/45/2024'', rd_usage_ccf = 2,
           rd_average_ccf = None, rd_unit = ''CCF'', rd_timestamp = ''t1''\<rparr>,
         \<lparr>rd_date = ''1/1'', rd_full_date = ''01/01/2024'', rd_usage_ccf = 7,
           rd_average_ccf = None, rd_unit = ''CCF'', rd_timestamp = ''t1''\<rparr>]
        (Series [])))))
   = map date (loadHistoricalData (map_history_file gas_observable
     (storeUsageData_GAS mdy_time ''2024-06-01T06:00:00.000Z'' 1654063200000
        [\<lparr>rd_date = ''3/1'', rd_full_date = ''03/01/2024'', rd_usage_ccf = 3,
           rd_average_ccf = None, rd_unit = ''CCF'', rd_timestamp = ''t1''\<rparr>,
         \<lparr>rd_date = ''13/45'', rd_full_date = ''13/45/2024'', rd_usage_ccf = 1,
           rd_average_ccf = None, rd_unit = ''CCF'', rd_timestamp = ''t1''\<rparr>,
         \<lparr>rd_date = ''14/45'', rd_full_date = ''14/45/2024'', rd_usage_ccf = 2,
           rd_average_ccf = None, rd_unit = ''CCF'', rd_timestamp = ''t1''\<rparr>,
         \<lparr>rd_date = ''1/1'', rd_full_date = ''01/01/2024'', rd_usage_ccf = 7,
           rd_average_ccf = None, rd_unit = ''CCF'', rd_timestamp = ''t1''\<rparr>]
        (Series []))))"
      by (rule arg_cong)
    then show False
      by (simp only: d w1 w2) simp
  qed
  with w1 w2 show ?thesis by blast
qed

subsection \<open>The history file stays sorted and within the retention window\<close>

text \<open>
  For every content of the history file and every non-empty batch, the series that
  \<open>storeUsageData\<close> writes has no record whose date is earlier than \<open>two_years_ago\<close> (nor
  one whose date does not parse); and it is non-decreasing by date when the dates of
  the loaded records and of the batch all parse.
\<close>

lemma retention_and_sorted_when_dates_parse:
  assumes "gas_batch \<noteq> []" and "electric_batch \<noteq> []"
  shows "(\<exists>written. storeUsageData_GAS tm now c gas_batch gas_file = Series written \<and>
            (\<forall>x\<in>set written. \<exists>t. tm (date x) = Some t \<and> c \<le> t) \<and>
            ((\<forall>x\<in>set (loadHistoricalData gas_file). tm (date x) \<noteq> None) \<and>
             (\<forall>r\<in>set gas_batch. tm (rd_full_date r) \<noteq> None)
               \<longrightarrow> date_sorted (gas_getTime tm) written)) \<and>
         (\<exists>written. storeUsageData_ELECTRIC tm now c electric_batch electric_file = Series written \<and>
            (\<forall>x\<in>set written. \<exists>t. key_time tm (e_date x) = Some t \<and> c \<le> t) \<and>
            ((\<forall>x\<in>set (loadHistoricalData electric_file). key_time tm (e_date x) \<noteq> None) \<and>
             (\<forall>r\<in>set electric_batch. key_time tm (electric_dateKey r) \<noteq> None)
               \<longrightarrow> date_sorted (electric_getTime tm) written))"
proof (intro conjI)
  let ?W = "reconcile (gas_getTime tm) c date (gas_new_record now) gas_dateKey
              (loadHistoricalData gas_file) gas_batch"
  have w: "storeUsageData_GAS tm now c gas_batch gas_file = Series ?W"
    using assms(1) by (simp add: storeUsageData_GAS_def)
  have ret: "\<forall>x\<in>set ?W. \<exists>t. tm (date x) = Some t \<and> c \<le> t"
    using reconcile_retention[of "gas_getTime tm" c date "gas_new_record now" gas_dateKey
        "loadHistoricalData gas_file" gas_batch]
    by (auto simp: not_before_def gas_getTime_def split: option.splits)
  have srt: "date_sorted (gas_getTime tm) ?W"
    if "(\<forall>x\<in>set (loadHistoricalData gas_file). tm (date x) \<noteq> None) \<and>
        (\<forall>r\<in>set gas_batch. tm (rd_full_date r) \<noteq> None)"
    by (rule reconcile_sorted[where tk = tm])
       (use that in \<open>simp_all add: gas_key gas_getTime_def gas_dateKey_def\<close>)
  from w ret srt
  show "\<exists>written. storeUsageData_GAS tm now c gas_batch gas_file = Series written \<and>
            (\<forall>x\<in>set written. \<exists>t. tm (date x) = Some t \<and> c \<le> t) \<and>
            ((\<forall>x\<in>set (loadHistoricalData gas_file). tm (date x) \<noteq> None) \<and>
             (\<forall>r\<in>set gas_batch. tm (rd_full_date r) \<noteq> None)
               \<longrightarrow> date_sorted (gas_getTime tm) written)"
    by blast
next
  let ?W = "reconcile (electric_getTime tm) c e_date (electric_new_record now) electric_dateKey
              (loadHistoricalData electric_file) electric_batch"
  have w: "storeUsageData_ELECTRIC tm now c electric_batch electric_file = Series ?W"
    using assms(2) by (simp add: storeUsageData_ELECTRIC_def)
  have ret: "\<forall>x\<in>set ?W. \<exists>t. key_time tm (e_date x) = Some t \<and> c \<le> t"
    using reconcile_retention[of "electric_getTime tm" c e_date "electric_new_record now"
        electric_dateKey "loadHistoricalData electric_file" electric_batch]
    by (auto simp: not_before_def electric_getTime_key split: option.splits)
  have srt: "date_sorted (electric_getTime tm) ?W"
    if "(\<forall>x\<in>set (loadHistoricalData electric_file). key_time tm (e_date x) \<noteq> None) \<and>
        (\<forall>r\<in>set electric_batch. key_time tm (electric_dateKey r) \<noteq> None)"
    by (rule reconcile_sorted[where tk = "key_time tm"])
       (use that in \<open>simp_all add: electric_key electric_getTime_key\<close>)
  from w ret srt
  show "\<exists>written. storeUsageData_ELECTRIC tm now c electric_batch electric_file = Series written \<and>
            (\<forall>x\<in>set written. \<exists>t. key_time tm (e_date x) = Some t \<and> c \<le> t) \<and>
            ((\<forall>x\<in>set (loadHistoricalData electric_file). key_time tm (e_date x) \<noteq> None) \<and>
             (\<forall>r\<in>set electric_batch. key_time tm (electric_dateKey r) \<noteq> None)
               \<longrightarrow> date_sorted (electric_getTime tm) written)"
    by blast
qed

lemma retention_and_sorted_when_dates_parse_instance:
  "[\<lparr>rd_date = ''2/1'', rd_full_date = ''02/01/2024'', rd_usage_ccf = 4,
      rd_average_ccf = None, rd_unit = ''CCF'', rd_timestamp = ''t1''\<rparr>,
    \<lparr>rd_date = ''1/5'', rd_full_date = ''01/05/2024'', rd_usage_ccf = 10,
      rd_average_ccf = Some 3, rd_unit = ''CCF'', rd_timestamp = ''t1''\<rparr>] \<noteq> [] \<and>
   [\<lparr>er_date = Some ''1/5'', er_full_date = Some ''01/05/2024'', er_date_label = None,
      er_energy = None, er_usage_kwh = 30, er_unit = ''kWh'', er_startTime = None,
      er_endTime = None, er_timestamp = None\<rparr>] \<noteq> [] \<and>
   (\<exists>written.
      storeUsageData_GAS mdy_time ''t2'' 1600000000000
        [\<lparr>rd_date = ''2/1'', rd_full_date = ''02/01/2024'', rd_usage_ccf = 4,
           rd_average_ccf = None, rd_unit = ''CCF'', rd_timestamp = ''t1''\<rparr>,
         \<lparr>rd_date = ''1/5'', rd_full_date = ''01/05/2024'', rd_usage_ccf = 10,
           rd_average_ccf = Some 3, rd_unit = ''CCF'', rd_timestamp = ''t1''\<rparr>]
        (Series
           [\<lparr>date = ''03/01/2024'', date_label = ''3/1'', usage_ccf = 2,
              usage_therms = fl (2074 / 1000), average_ccf = Some 1, unit = ''CCF'',
              timestamp = ''t0'', created_at = ''t0''\<rparr>]) = Series written \<and>
      map date written = [''01/05/2024'', ''02/01/2024'', ''03/01/2024''] \<and>
      (\<forall>x\<in>set written. \<exists>t. mdy_time (date x) = Some t \<and> 1600000000000 \<le> t) \<and>
      date_sorted (gas_getTime mdy_time) written) \<and>
   (\<exists>written.
      storeUsageData_ELECTRIC mdy_time ''t2'' 1600000000000
        [\<lparr>er_date = Some ''1/5'', er_full_date = Some ''01/05/2024'', er_date_label = None,
           er_energy = None, er_usage_kwh = 30, er_unit = ''kWh'', er_startTime = None,
           er_endTime = None, er_timestamp = None\<rparr>] Missing = Series written \<and>
      (\<forall>x\<in>set written. \<exists>t. key_time mdy_time (e_date x) = Some t \<and> 1600000000000 \<le> t) \<and>
      date_sorted (electric_getTime mdy_time) written)"
proof -
  let ?old = "\<lparr>date = ''03/01/2024'', date_label = ''3/1'', usage_ccf = 2,
              usage_therms = fl (2074 / 1000), average_ccf = Some 1, unit = ''CCF'',
              timestamp = ''t0'', created_at = ''t0''\<rparr>"
  let ?gb = "[\<lparr>rd_date = ''2/1'', rd_full_date = ''02/01/2024'', rd_usage_ccf = 4,
      rd_average_ccf = None, rd_unit = ''CCF'', rd_timestamp = ''t1''\<rparr>,
    \<lparr>rd_date = ''1/5'', rd_full_date = ''01/05/2024'', rd_usage_ccf = 10,
      rd_average_ccf = Some 3, rd_unit = ''CCF'', rd_timestamp = ''t1''\<rparr>]"
  let ?eb = "[\<lparr>er_date = Some ''1/5'', er_full_date = Some ''01/05/2024'', er_date_label = None,
      er_energy = None, er_usage_kwh = 30, er_unit = ''kWh'', er_startTime = None,
      er_endTime = None, er_timestamp = None\<rparr>]"
  have n1: "?gb \<noteq> []" and n2: "?eb \<noteq> []" by simp_all
  have v1: "\<forall>x\<in>set (loadHistoricalData (Series [?old])). mdy_time (date x) \<noteq> None"
    by code_simp
  have v2: "\<forall>r\<in>set ?gb. mdy_time (rd_full_date r) \<noteq> None"
    by code_simp
  have v3: "\<forall>x\<in>set (loadHistoricalData (Missing :: electric_record history_file)).
      key_time mdy_time (e_date x) \<noteq> None"
    by (simp add: loadHistoricalData_def)
  have v4: "\<forall>r\<in>set ?eb. key_time mdy_time (electric_dateKey r) \<noteq> None"
    by code_simp
  have dates: "map date (loadHistoricalData
      (storeUsageData_GAS mdy_time ''t2'' 1600000000000 ?gb (Series [?old])))
      = [''01/05/2024'', ''02/01/2024'', ''03/01/2024'']"
    by code_simp
  from retention_and_sorted_when_dates_parse[OF n1 n2, of mdy_time "''t2''" 1600000000000 "Series [?old]" Missing]
    v1 v2 v3 v4 dates n1 n2
  show ?thesis
    by (auto simp: loadHistoricalData_def)
qed

text \<open>
  C2. The series that \<open>storeUsageData\<close> writes is to be non-decreasing by date, with no record
  older than the retention cutoff. The code fails the first part on an empty history file and
  a batch with readings dated \<open>03/01/2024\<close>, \<open>13/45/2024\<close>, \<open>14/45/2024\<close> and \<open>01/01/2024\<close>, in
  this order. The sort, which the code comments as oldest first, runs before the retention
  filter: its comparator returns \<open>NaN\<close> for every pair with a date that does not parse, a sort
  that reads \<open>NaN\<close> as \<open>0\<close> and compares neighbours leaves the four records as the loop pushed
  them, and the filter then drops the two records whose dates do not parse. The series
  written is \<open>03/01/2024, 01/01/2024\<close>: both dates parse, both are within the retention
  window, and the later one comes first.
\<close>

theorem history_written_unsorted:
  "map date (loadHistoricalData
     (storeUsageData_GAS mdy_time ''2024-06-01T06:00:00.000Z'' 1654063200000
        [\<lparr>rd_date = ''3/1'', rd_full_date = ''03/01/2024'', rd_usage_ccf = 3,
           rd_average_ccf = None, rd_unit = ''CCF'', rd_timestamp = ''t1''\<rparr>,
         \<lparr>rd_date = ''13/45'', rd_full_date = ''13/45/2024'', rd_usage_ccf = 1,
           rd_average_ccf = None, rd_unit = ''CCF'', rd_timestamp = ''t1''\<rparr>,
         \<lparr>rd_date = ''14/45'', rd_full_date = ''14/45/2024'', rd_usage_ccf = 2,
           rd_average_ccf = None, rd_unit = ''CCF'', rd_timestamp = ''t1''\<rparr>,
         \<lparr>rd_date = ''1/1'', rd_full_date = ''01/01/2024'', rd_usage_ccf = 7,
           rd_average_ccf = None, rd_unit = ''CCF'', rd_timestamp = ''t1''\<rparr>]
        (Series [])))
   = [''03/01/2024'', ''01/01/2024''] \<and>
   \<not> date_sorted (gas_getTime mdy_time)
     (loadHistoricalData
        (storeUsageData_GAS mdy_time ''2024-06-01T06:00:00.000Z'' 1654063200000
        [\<lparr>rd_date = ''3/1'', rd_full_date = ''03/01/2024'', rd_usage_ccf = 3,
           rd_average_ccf = None, rd_unit = ''CCF'', rd_timestamp = ''t1''\<rparr>,
         \<lparr>rd_date = ''13/45'', rd_full_date = ''13/45/2024'', rd_usage_ccf = 1,
           rd_average_ccf = None, rd_unit = ''CCF'', rd_timestamp = ''t1''\<rparr>,
         \<lparr>rd_date = ''14/45'', rd_full_date = ''14/45/2024'', rd_usage_ccf = 2,
           rd_average_ccf = None, rd_unit = ''CCF'', rd_timestamp = ''t1''\<rparr>,
         \<lparr>rd_date = ''1/1'', rd_full_date = ''01/01/2024'', rd_usage_ccf = 7,
           rd_average_ccf = None, rd_unit = ''CCF'', rd_timestamp = ''t1''\<rparr>]
        (Series [])))"
  by code_simp

subsection \<open>A new reading replaces the record of its date\<close>



subsection \<open>An unreadable history file counts as empty\<close>

text \<open>
  C9. When the history file is missing or does not parse, \<open>loadHistoricalData\<close> returns
  the empty list; \<open>storeUsageData\<close> with a non-empty batch then reconciles the batch with
  the empty list and writes a file in which every record is built from a reading of the
  batch. Nothing fails, and nothing of what the file held before is kept.
\<close>

theorem unreadable_history_discarded:
  assumes "gas_file = Missing \<or> gas_file = Corrupt"
    and "electric_file = Missing \<or> electric_file = Corrupt"
    and "gas_batch \<noteq> []" and "electric_batch \<noteq> []"
  shows "loadHistoricalData gas_file = [] \<and>
         loadHistoricalData electric_file = [] \<and>
         (\<exists>written. storeUsageData_GAS tm now c gas_batch gas_file = Series written \<and>
            written = reconcile (gas_getTime tm) c date (gas_new_record now) gas_dateKey [] gas_batch \<and>
            (\<forall>x\<in>set written. \<exists>r\<in>set gas_batch. x = gas_new_record now r)) \<and>
         (\<exists>written. storeUsageData_ELECTRIC tm now c electric_batch electric_file = Series written \<and>
            written = reconcile (electric_getTime tm) c e_date (electric_new_record now)
                        electric_dateKey [] electric_batch \<and>
            (\<forall>x\<in>set written. \<exists>r\<in>set electric_batch. x = electric_new_record now r))"
proof -
  have g: "loadHistoricalData gas_file = []"
    using assms(1) by (auto simp: loadHistoricalData_def)
  have e: "loadHistoricalData electric_file = []"
    using assms(2) by (auto simp: loadHistoricalData_def)
  have gw: "storeUsageData_GAS tm now c gas_batch gas_file
      = Series (reconcile (gas_getTime tm) c date (gas_new_record now) gas_dateKey [] gas_batch)"
    using assms(3) g by (simp add: storeUsageData_GAS_def)
  have ew: "storeUsageData_ELECTRIC tm now c electric_batch electric_file
      = Series (reconcile (electric_getTime tm) c e_date (electric_new_record now)
                  electric_dateKey [] electric_batch)"
    using assms(4) e by (simp add: storeUsageData_ELECTRIC_def)
  have gs: "\<forall>x\<in>set (reconcile (gas_getTime tm) c date (gas_new_record now) gas_dateKey [] gas_batch).
      \<exists>r\<in>set gas_batch. x = gas_new_record now r"
    using set_reconcile[of "gas_getTime tm" c date "gas_new_record now" gas_dateKey "[]" gas_batch]
    by auto
  have es: "\<forall>x\<in>set (reconcile (electric_getTime tm) c e_date (electric_new_record now)
                  electric_dateKey [] electric_batch).
      \<exists>r\<in>set electric_batch. x = electric_new_record now r"
    using set_reconcile[of "electric_getTime tm" c e_date "electric_new_record now"
        electric_dateKey "[]" electric_batch]
    by auto
  from g e gw ew gs es show ?thesis by simp
qed

theorem unreadable_history_discarded_witness:
  "((Corrupt :: gas_record history_file) = Missing \<or> (Corrupt :: gas_record history_file) = Corrupt) \<and>
   ((Missing :: electric_record history_file) = Missing \<or>
      (Missing :: electric_record history_file) = Corrupt) \<and>
   [\<lparr>rd_date = ''1/5'', rd_full_date = ''01/05/2024'', rd_usage_ccf = 10,
      rd_average_ccf = Some 3, rd_unit = ''CCF'', rd_timestamp = ''t1''\<rparr>] \<noteq> [] \<and>
   [\<lparr>er_date = Some ''1/5'', er_full_date = Some ''01/05/2024'', er_date_label = None,
      er_energy = None, er_usage_kwh = 30, er_unit = ''kWh'', er_startTime = None,
      er_endTime = None, er_timestamp = None\<rparr>] \<noteq> [] \<and>
   loadHistoricalData (Corrupt :: gas_record history_file) = [] \<and>
   storeUsageData_GAS mdy_time ''t2'' 1600000000000
     [\<lparr>rd_date = ''1/5'', rd_full_date = ''01/05/2024'', rd_usage_ccf = 10,
        rd_average_ccf = Some 3, rd_unit = ''CCF'', rd_timestamp = ''t1''\<rparr>] Corrupt
   = Series
       [\<lparr>date = ''01/05/2024'', date_label = ''1/5'', usage_ccf = 10, usage_therms = fl (10370 / 1000),
          average_ccf = Some 3, unit = ''CCF'', timestamp = ''t1'', created_at = ''t2''\<rparr>] \<and>
   storeUsageData_ELECTRIC mdy_time ''t2'' 1600000000000
     [\<lparr>er_date = Some ''1/5'', er_full_date = Some ''01/05/2024'', er_date_label = None,
        er_energy = None, er_usage_kwh = 30, er_unit = ''kWh'', er_startTime = None,
        er_endTime = None, er_timestamp = None\<rparr>] Missing
   = Series
       [\<lparr>e_date = Some ''01/05/2024'', e_date_label = Some ''1/5'', usage_kwh = 30,
          start_time = None, end_time = None, e_unit = ''kWh'', e_timestamp = ''t2'',
          e_created_at = ''t2''\<rparr>]"
proof -
  let ?gb = "[\<lparr>rd_date = ''1/5'', rd_full_date = ''01/05/2024'', rd_usage_ccf = 10,
      rd_average_ccf = Some 3, rd_unit = ''CCF'', rd_timestamp = ''t1''\<rparr>]"
  let ?eb = "[\<lparr>er_date = Some ''1/5'', er_full_date = Some ''01/05/2024'', er_date_label = None,
      er_energy = None, er_usage_kwh = 30, er_unit = ''kWh'', er_startTime = None,
      er_endTime = None, er_timestamp = None\<rparr>]"
  have h1: "(Corrupt :: gas_record history_file) = Missing \<or> (Corrupt :: gas_record history_file) = Corrupt"
    by simp
  have h2: "(Missing :: electric_record history_file) = Missing \<or>
      (Missing :: electric_record history_file) = Corrupt"
    by simp
  have h3: "?gb \<noteq> []" and h4: "?eb \<noteq> []" by simp_all
  have g: "reconcile (gas_getTime mdy_time) 1600000000000 date (gas_new_record ''t2'') gas_dateKey [] ?gb
    = [\<lparr>date = ''01/05/2024'', date_label = ''1/5'', usage_ccf = 10, usage_therms = fl (10370 / 1000),
          average_ccf = Some 3, unit = ''CCF'', timestamp = ''t1'', created_at = ''t2''\<rparr>]"
    by code_simp
  have e: "reconcile (electric_getTime mdy_time) 1600000000000 e_date (electric_new_record ''t2'')
      electric_dateKey [] ?eb
    = [\<lparr>e_date = Some ''01/05/2024'', e_date_label = Some ''1/5'', usage_kwh = 30,
          start_time = None, end_time = None, e_unit = ''kWh'', e_timestamp = ''t2'',
          e_created_at = ''t2''\<rparr>]"
    by code_simp
  from unreadable_history_discarded[OF h1 h2 h3 h4, of mdy_time "''t2''" 1600000000000] g e h1 h2 h3 h4
  show ?thesis by simp
qed

subsection \<open>A gas response without series\<close>

text \<open>
  C10. When the browser launches, the login succeeds, a gas meter is configured and the
  object parsed from the gas response lacks \<open>Series1\<close> or \<open>TickSeries\<close>, then
  \<open>processGasData\<close> returns the empty batch, \<open>read_gas_api\<close> returns it without throwing,
  the gas history file is at the end of the run what it was at the start, the gas utility
  is recorded as a success with 0 records, and the exit code is 0.
\<close>

theorem gas_without_series_is_success:
  assumes "launch_ok w" and "login_ok w" and "is_set (GAS_METERNUM w)"
    and "gas_response w = Body (Json raw)"
    and "Series1 raw = None \<or> TickSeries raw = None"
  shows "processGasData (w_tm w) (w_now w) (w_current_year w) raw = [] \<and>
         snd (read_gas_api w fs) = Some [] \<and>
         gas_history_file (rs_files (at_exit (fetch_once w fs))) = gas_history_file fs \<and>
         rs_gas (at_exit (fetch_once w fs)) = \<lparr> success = True, failed = False, data_points = 0 \<rparr> \<and>
         exit_code (fetch_once w fs) = 0"
  using assms by (rule fetch_once_gas_no_series)

theorem gas_without_series_is_success_witness:
  "launch_ok (idle_world\<lparr>GAS_METERNUM := Some ''7654321'', login_ok := True,
        gas_response := Body (Json \<lparr>Series1 = None, Series2 = None, TickSeries = Some [''1/5''],
                                    UnitOfMeasure = None\<rparr>)\<rparr>) \<and>
   login_ok (idle_world\<lparr>GAS_METERNUM := Some ''7654321'', login_ok := True,
        gas_response := Body (Json \<lparr>Series1 = None, Series2 = None, TickSeries = Some [''1/5''],
                                    UnitOfMeasure = None\<rparr>)\<rparr>) \<and>
   is_set (GAS_METERNUM (idle_world\<lparr>GAS_METERNUM := Some ''7654321'', login_ok := True,
        gas_response := Body (Json \<lparr>Series1 = None, Series2 = None, TickSeries = Some [''1/5''],
                                    UnitOfMeasure = None\<rparr>)\<rparr>)) \<and>
   gas_history_file (rs_files (at_exit (fetch_once
       (idle_world\<lparr>GAS_METERNUM := Some ''7654321'', login_ok := True,
          gas_response := Body (Json \<lparr>Series1 = None, Series2 = None, TickSeries = Some [''1/5''],
                                      UnitOfMeasure = None\<rparr>)\<rparr>)
       (no_files\<lparr>gas_history_file := Corrupt\<rparr>)))) = Corrupt \<and>
   exit_code (fetch_once
       (idle_world\<lparr>GAS_METERNUM := Some ''7654321'', login_ok := True,
          gas_response := Body (Json \<lparr>Series1 = None, Series2 = None, TickSeries = Some [''1/5''],
                                      UnitOfMeasure = None\<rparr>)\<rparr>)
       (no_files\<lparr>gas_history_file := Corrupt\<rparr>)) = 0"
proof -
  let ?raw = "\<lparr>Series1 = None, Series2 = None, TickSeries = Some [''1/5''], UnitOfMeasure = None\<rparr>"
  let ?w = "idle_world\<lparr>GAS_METERNUM := Some ''7654321'', login_ok := True,
        gas_response := Body (Json ?raw)\<rparr>"
  have h1: "launch_ok ?w" and h2: "login_ok ?w" and h3: "is_set (GAS_METERNUM ?w)"
    and h4: "gas_response ?w = Body (Json ?raw)"
    by (simp_all add: idle_world_def is_set_def)
  have h5: "Series1 ?raw = None \<or> TickSeries ?raw = None" by simp
  from gas_without_series_is_success[OF h1 h2 h3 h4 h5, of "no_files\<lparr>gas_history_file := Corrupt\<rparr>"]
    h1 h2 h3
  show ?thesis by simp
qed

subsection \<open>The exit code and an invalid configuration\<close>

text \<open>
  C4. The run below has an invalid configuration (\<open>ACCOUNTNUM\<close> is not set, so
  \<open>valid_config\<close> is false) and ends with exit code 0: the constructor returns early but
  \<open>main\<close> calls \<open>fetch_once\<close> all the same, \<open>fetch_once\<close> never consults \<open>valid_config\<close>, the
  login succeeds, and the gas response parses to an object without series, which counts
  as a success. Lemma \<open>fetch_once_exit_code\<close> gives the exit code of every run: 0 when the
  browser launches, the login succeeds and a utility succeeds, and 1 otherwise.
\<close>

theorem invalid_config_exits_zero:
  "\<not> valid_config (idle_world\<lparr>EMAIL := Some ''user@example.com'', PASSWORD := Some ''secret'',
        GAS_METERNUM := Some ''7654321'', login_ok := True,
        gas_response := Body (Json \<lparr>Series1 = None, Series2 = None, TickSeries = None,
                                    UnitOfMeasure = None\<rparr>)\<rparr>) \<and>
   exit_code (main (idle_world\<lparr>EMAIL := Some ''user@example.com'', PASSWORD := Some ''secret'',
        GAS_METERNUM := Some ''7654321'', login_ok := True,
        gas_response := Body (Json \<lparr>Series1 = None, Series2 = None, TickSeries = None,
                                    UnitOfMeasure = None\<rparr>)\<rparr>) no_files) = 0"
proof -
  let ?raw = "\<lparr>Series1 = None, Series2 = None, TickSeries = None, UnitOfMeasure = None\<rparr>"
  let ?w = "idle_world\<lparr>EMAIL := Some ''user@example.com'', PASSWORD := Some ''secret'',
        GAS_METERNUM := Some ''7654321'', login_ok := True, gas_response := Body (Json ?raw)\<rparr>"
  have nv: "\<not> valid_config ?w"
    by (simp add: valid_config_def idle_world_def is_set_def)
  have "exit_code (fetch_once ?w no_files) = 0"
    using fetch_once_gas_no_series[of ?w ?raw no_files]
    by (simp add: idle_world_def is_set_def)
  with nv show ?thesis by (simp add: main_def constructor_def)
qed

subsection \<open>No meter configured\<close>

text \<open>
  C5. When both \<open>GAS_METERNUM\<close> and \<open>ELECTRIC_METERNUM\<close> are absent or blank and the
  browser can be launched, the configuration is invalid, and yet \<open>main\<close> runs \<open>fetch_once\<close>,
  which launches the browser: at the end of the process a browser has been opened. With
  both absent, the login is attempted, both utilities are skipped and the process ends
  with exit code 1 and the browser open.
\<close>

theorem no_meter_still_opens_browser:
  assumes "\<not> is_set_trimmed (GAS_METERNUM w)" and "\<not> is_set_trimmed (ELECTRIC_METERNUM w)"
    and "launch_ok w"
  shows "\<not> valid_config w \<and> rs_browser (at_exit (main w fs)) \<noteq> NoBrowser"
proof -
  have "\<not> valid_config w"
    using assms(1,2) by (simp add: valid_config_def Let_def)
  moreover have "rs_browser (at_exit (fetch_once w (constructor w fs))) \<noteq> NoBrowser"
    using assms(3) by (rule fetch_once_browser_opened)
  ultimately show ?thesis by (simp add: main_def)
qed

theorem no_meter_still_opens_browser_witness:
  "\<not> is_set_trimmed (GAS_METERNUM (idle_world\<lparr>EMAIL := Some ''user@example.com'',
        PASSWORD := Some ''secret'', ACCOUNTNUM := Some ''1234567'', login_ok := True\<rparr>)) \<and>
   \<not> is_set_trimmed (ELECTRIC_METERNUM (idle_world\<lparr>EMAIL := Some ''user@example.com'',
        PASSWORD := Some ''secret'', ACCOUNTNUM := Some ''1234567'', login_ok := True\<rparr>)) \<and>
   launch_ok (idle_world\<lparr>EMAIL := Some ''user@example.com'', PASSWORD := Some ''secret'',
        ACCOUNTNUM := Some ''1234567'', login_ok := True\<rparr>) \<and>
   \<not> valid_config (idle_world\<lparr>EMAIL := Some ''user@example.com'', PASSWORD := Some ''secret'',
        ACCOUNTNUM := Some ''1234567'', login_ok := True\<rparr>) \<and>
   rs_browser (at_exit (main (idle_world\<lparr>EMAIL := Some ''user@example.com'',
        PASSWORD := Some ''secret'', ACCOUNTNUM := Some ''1234567'', login_ok := True\<rparr>) no_files))
     = BrowserOpen \<and>
   exit_code (main (idle_world\<lparr>EMAIL := Some ''user@example.com'', PASSWORD := Some ''secret'',
        ACCOUNTNUM := Some ''1234567'', login_ok := True\<rparr>) no_files) = 1"
proof -
  let ?w = "idle_world\<lparr>EMAIL := Some ''user@example.com'', PASSWORD := Some ''secret'',
        ACCOUNTNUM := Some ''1234567'', login_ok := True\<rparr>"
  have h1: "\<not> is_set_trimmed (GAS_METERNUM ?w)" and h2: "\<not> is_set_trimmed (ELECTRIC_METERNUM ?w)"
    and h3: "launch_ok ?w"
    by (simp_all add: idle_world_def is_set_trimmed_def)
  have tb: "try_block ?w (constructor ?w no_files) =
      Exited 1 \<lparr>rs_browser = BrowserOpen, rs_files = constructor ?w no_files, rs_gas = no_result,
                 rs_electric = no_result\<rparr>"
    by (simp add: try_block_def idle_world_def is_set_def no_result_def)
  have run: "rs_browser (at_exit (main ?w no_files)) = BrowserOpen \<and> exit_code (main ?w no_files) = 1"
    by (simp add: main_def fetch_once_def tb)
  from no_meter_still_opens_browser[OF h1 h2 h3, of no_files] h1 h2 h3 run show ?thesis by simp
qed

subsection \<open>The browser at the end of a failed run\<close>

text \<open>
  C6. Whenever the browser was launched and \<open>fetch_once\<close> ends with exit code 1 (the login
  threw, or no utility succeeded), the browser is still open when the process ends: both
  \<open>process.exit(1)\<close> calls end the process before the \<open>finally\<close> block, where
  \<open>browser.close()\<close> is.
\<close>

theorem browser_left_open_on_failure:
  assumes "launch_ok w" and "exit_code (fetch_once w fs) = 1"
  shows "rs_browser (at_exit (fetch_once w fs)) = BrowserOpen"
  using fetch_once_cases[of w fs] assms try_block_browser[OF assms(1), of fs]
  by auto

theorem browser_left_open_on_failure_witness:
  "launch_ok idle_world \<and> exit_code (fetch_once idle_world no_files) = 1 \<and>
   rs_browser (at_exit (fetch_once idle_world no_files)) = BrowserOpen"
proof -
  have l: "launch_ok idle_world" by (simp add: idle_world_def)
  have e: "exit_code (fetch_once idle_world no_files) = 1"
    by (simp add: fetch_once_def try_block_def idle_world_def)
  from browser_left_open_on_failure[OF l e] l e show ?thesis by simp
qed


subsection \<open>Monthly rollup\<close>

text \<open>
  C7. \<open>createMonthlySummary\<close> for gas returns one rollup for each month key \<open>YYYY-MM\<close> of
  the records' dates, in strictly ascending order of the key; the rollup of a month has
  as \<open>days\<close> the number of records of the month, as \<open>total_ccf\<close> and \<open>total_therms\<close> the
  double sums over these records, added in the order of the records, rounded to three
  decimals, and as \<open>average_daily_ccf\<close> and \<open>average_daily_therms\<close> the double quotients of
  these sums by \<open>days\<close>, rounded to three decimals. Rounded to three decimals: the value is
  the double nearest to \<open>k / 1000\<close> for an integer \<open>k\<close> with \<open>k / 1000\<close> within half a
  thousandth of the sum or quotient. Records of 2 CCF on 01/01/2024 and 4 CCF on 01/02/2024
  give the single rollup \<open>2024-01\<close> with \<open>total_ccf = 6\<close>, \<open>days = 2\<close> and
  \<open>average_daily_ccf = 3\<close>; records of 1.037 and 2.074 therms in one month give
  \<open>average_daily_therms = 1.555\<close>, the double quotient lying just below 1.5555.
\<close>

theorem monthly_rollup:
  "sorted_wrt (\<lambda>a b. localeCompare (month a) (month b) < 0)
     (createMonthlySummary_GAS cal historical_data) \<and>
   month ` set (createMonthlySummary_GAS cal historical_data)
     = (\<lambda>r. month_key_of cal (date r)) ` set historical_data \<and>
   (\<forall>m\<in>set (createMonthlySummary_GAS cal historical_data).
      days m = length (filter (\<lambda>r. month_key_of cal (date r) = month m) historical_data) \<and>
      total_ccf m = toFixed 3 (dsum (map usage_ccf 
           (filter (\<lambda>r. month_key_of cal (date r) = month m) historical_data))) \<and>
      total_therms m = toFixed 3 (dsum (map usage_therms 
           (filter (\<lambda>r. month_key_of cal (date r) = month m) historical_data))) \<and>
      average_daily_ccf m = toFixed 3 (ddiv (dsum (map usage_ccf 
           (filter (\<lambda>r. month_key_of cal (date r) = month m) historical_data))) (of_nat (days m))) \<and>
      average_daily_therms m = toFixed 3 (ddiv (dsum (map usage_therms 
           (filter (\<lambda>r. month_key_of cal (date r) = month m) historical_data))) (of_nat (days m))) \<and>
      (\<exists>k::int. total_ccf m = fl (of_int k / 1000) \<and>
         \<bar>of_int k / 1000 - dsum (map usage_ccf 
           (filter (\<lambda>r. month_key_of cal (date r) = month m) historical_data))\<bar> \<le> 1 / 2000) \<and>
      (\<exists>k::int. total_therms m = fl (of_int k / 1000) \<and>
         \<bar>of_int k / 1000 - dsum (map usage_therms 
           (filter (\<lambda>r. month_key_of cal (date r) = month m) historical_data))\<bar> \<le> 1 / 2000) \<and>
      (\<exists>k::int. average_daily_ccf m = fl (of_int k / 1000) \<and>
         \<bar>of_int k / 1000 - ddiv (dsum (map usage_ccf 
           (filter (\<lambda>r. month_key_of cal (date r) = month m) historical_data))) (of_nat (days m))\<bar> \<le> 1 / 2000) \<and>
      (\<exists>k::int. average_daily_therms m = fl (of_int k / 1000) \<and>
         \<bar>of_int k / 1000 - ddiv (dsum (map usage_therms 
           (filter (\<lambda>r. month_key_of cal (date r) = month m) historical_data))) (of_nat (days m))\<bar> \<le> 1 / 2000)) \<and>
   createMonthlySummary_GAS mdy_cal
     [\<lparr>date = ''01/01/2024'', date_label = ''1/1'', usage_ccf = 2, usage_therms = fl (2074 / 1000),
        average_ccf = None, unit = ''CCF'', timestamp = ''t0'', created_at = ''t0''\<rparr>,
      \<lparr>date = ''01/02/2024'', date_label = ''1/2'', usage_ccf = 4, usage_therms = fl (4148 / 1000),
        average_ccf = None, unit = ''CCF'', timestamp = ''t0'', created_at = ''t0''\<rparr>]
   = [\<lparr>month = ''2024-01'', total_ccf = 6, total_therms = fl (6222 / 1000), days = 2,
        average_daily_ccf = 3, average_daily_therms = fl (3111 / 1000)\<rparr>] \<and>
   createMonthlySummary_GAS mdy_cal
     [\<lparr>date = ''03/01/2024'', date_label = ''3/1'', usage_ccf = 1, usage_therms = fl (1037 / 1000),
        average_ccf = None, unit = ''CCF'', timestamp = ''t0'', created_at = ''t0''\<rparr>,
      \<lparr>date = ''03/02/2024'', date_label = ''3/2'', usage_ccf = 2, usage_therms = fl (2074 / 1000),
        average_ccf = None, unit = ''CCF'', timestamp = ''t0'', created_at = ''t0''\<rparr>]
   = [\<lparr>month = ''2024-03'', total_ccf = 3, total_therms = fl (3111 / 1000), days = 2,
        average_daily_ccf = 3 / 2, average_daily_therms = fl (1555 / 1000)\<rparr>]"
proof (intro conjI ballI)
  note g = monthly_rollup_general[of cal historical_data]
  from g show "sorted_wrt (\<lambda>a b. localeCompare (month a) (month b) < 0)
     (createMonthlySummary_GAS cal historical_data)"
    by blast
  from g show "month ` set (createMonthlySummary_GAS cal historical_data)
     = (\<lambda>r. month_key_of cal (date r)) ` set historical_data"
    by blast
  fix m assume "m \<in> set (createMonthlySummary_GAS cal historical_data)"
  with g have m: "m = gas_month_average (month_totals cal (month m) historical_data)"
    by blast
  let ?g = "filter (\<lambda>r. month_key_of cal (date r) = month m) historical_data"
  have f: "days m = length ?g"
    "total_ccf m = toFixed 3 (dsum (map usage_ccf ?g))"
    "total_therms m = toFixed 3 (dsum (map usage_therms ?g))"
    "average_daily_ccf m = toFixed 3 (ddiv (dsum (map usage_ccf ?g)) (of_nat (length ?g)))"
    "average_daily_therms m = toFixed 3 (ddiv (dsum (map usage_therms ?g)) (of_nat (length ?g)))"
    by (subst m, simp add: gas_month_average_def month_totals_def Let_def)+
  from f show "days m = length ?g" by simp
  from f show "total_ccf m = toFixed 3 (dsum (map usage_ccf ?g))" by simp
  from f show "total_therms m = toFixed 3 (dsum (map usage_therms ?g))" by simp
  from f show "average_daily_ccf m = toFixed 3 (ddiv (dsum (map usage_ccf ?g)) (of_nat (days m)))"
    by simp
  from f show "average_daily_therms m = toFixed 3 (ddiv (dsum (map usage_therms ?g)) (of_nat (days m)))"
    by simp
  from f(2) show "\<exists>k::int. total_ccf m = fl (of_int k / 1000) \<and>
         \<bar>of_int k / 1000 - dsum (map usage_ccf ?g)\<bar> \<le> 1 / 2000"
    using toFixed_rounds[of 3 "dsum (map usage_ccf ?g)"] by simp
  from f(3) show "\<exists>k::int. total_therms m = fl (of_int k / 1000) \<and>
         \<bar>of_int k / 1000 - dsum (map usage_therms ?g)\<bar> \<le> 1 / 2000"
    using toFixed_rounds[of 3 "dsum (map usage_therms ?g)"] by simp
  from f(1,4) show "\<exists>k::int. average_daily_ccf m = fl (of_int k / 1000) \<and>
         \<bar>of_int k / 1000 - ddiv (dsum (map usage_ccf ?g)) (of_nat (days m))\<bar> \<le> 1 / 2000"
    using toFixed_rounds[of 3 "ddiv (dsum (map usage_ccf ?g)) (of_nat (length ?g))"] by simp
  from f(1,5) show "\<exists>k::int. average_daily_therms m = fl (of_int k / 1000) \<and>
         \<bar>of_int k / 1000 - ddiv (dsum (map usage_therms ?g)) (of_nat (days m))\<bar> \<le> 1 / 2000"
    using toFixed_rounds[of 3 "ddiv (dsum (map usage_therms ?g)) (of_nat (length ?g))"] by simp
next
  show "createMonthlySummary_GAS mdy_cal
     [\<lparr>date = ''01/01/2024'', date_label = ''1/1'', usage_ccf = 2, usage_therms = fl (2074 / 1000),
        average_ccf = None, unit = ''CCF'', timestamp = ''t0'', created_at = ''t0''\<rparr>,
      \<lparr>date = ''01/02/2024'', date_label = ''1/2'', usage_ccf = 4, usage_therms = fl (4148 / 1000),
        average_ccf = None, unit = ''CCF'', timestamp = ''t0'', created_at = ''t0''\<rparr>]
   = [\<lparr>month = ''2024-01'', total_ccf = 6, total_therms = fl (6222 / 1000), days = 2,
        average_daily_ccf = 3, average_daily_therms = fl (3111 / 1000)\<rparr>]"
    by code_simp
next
  show "createMonthlySummary_GAS mdy_cal
     [\<lparr>date = ''03/01/2024'', date_label = ''3/1'', usage_ccf = 1, usage_therms = fl (1037 / 1000),
        average_ccf = None, unit = ''CCF'', timestamp = ''t0'', created_at = ''t0''\<rparr>,
      \<lparr>date = ''03/02/2024'', date_label = ''3/2'', usage_ccf = 2, usage_therms = fl (2074 / 1000),
        average_ccf = None, unit = ''CCF'', timestamp = ''t0'', created_at = ''t0''\<rparr>]
   = [\<lparr>month = ''2024-03'', total_ccf = 3, total_therms = fl (3111 / 1000), days = 2,
        average_daily_ccf = 3 / 2, average_daily_therms = fl (1555 / 1000)\<rparr>]"
    by code_simp
qed

theorem monthly_rollup_witness:
  "createMonthlySummary_GAS mdy_cal
     [\<lparr>date = ''02/03/2024'', date_label = ''2/3'', usage_ccf = 5, usage_therms = fl (5185 / 1000),
        average_ccf = None, unit = ''CCF'', timestamp = ''t0'', created_at = ''t0''\<rparr>,
      \<lparr>date = ''01/01/2024'', date_label = ''1/1'', usage_ccf = 2, usage_therms = fl (2074 / 1000),
        average_ccf = None, unit = ''CCF'', timestamp = ''t0'', created_at = ''t0''\<rparr>,
      \<lparr>date = ''01/02/2024'', date_label = ''1/2'', usage_ccf = 4, usage_therms = fl (4148 / 1000),
        average_ccf = None, unit = ''CCF'', timestamp = ''t0'', created_at = ''t0''\<rparr>]
   = [\<lparr>month = ''2024-01'', total_ccf = 6, total_therms = fl (6222 / 1000), days = 2,
        average_daily_ccf = 3, average_daily_therms = fl (3111 / 1000)\<rparr>,
      \<lparr>month = ''2024-02'', total_ccf = 5, total_therms = fl (5185 / 1000), days = 1,
        average_daily_ccf = 5, average_daily_therms = fl (5185 / 1000)\<rparr>] \<and>
   sorted_wrt (\<lambda>a b. localeCompare (month a) (month b) < 0)
     (createMonthlySummary_GAS mdy_cal
        [\<lparr>date = ''02/03/2024'', date_label = ''2/3'', usage_ccf = 5, usage_therms = fl (5185 / 1000),
        average_ccf = None, unit = ''CCF'', timestamp = ''t0'', created_at = ''t0''\<rparr>,
         \<lparr>date = ''01/01/2024'', date_label = ''1/1'', usage_ccf = 2, usage_therms = fl (2074 / 1000),
        average_ccf = None, unit = ''CCF'', timestamp = ''t0'', created_at = ''t0''\<rparr>,
         \<lparr>date = ''01/02/2024'', date_label = ''1/2'', usage_ccf = 4, usage_therms = fl (4148 / 1000),
        average_ccf = None, unit = ''CCF'', timestamp = ''t0'', created_at = ''t0''\<rparr>]) \<and>
   list_all (\<lambda>m. days m = length (filter (\<lambda>r. month_key_of mdy_cal (date r) = month m)
        [\<lparr>date = ''02/03/2024'', date_label = ''2/3'', usage_ccf = 5, usage_therms = fl (5185 / 1000),
        average_ccf = None, unit = ''CCF'', timestamp = ''t0'', created_at = ''t0''\<rparr>,
         \<lparr>date = ''01/01/2024'', date_label = ''1/1'', usage_ccf = 2, usage_therms = fl (2074 / 1000),
        average_ccf = None, unit = ''CCF'', timestamp = ''t0'', created_at = ''t0''\<rparr>,
         \<lparr>date = ''01/02/2024'', date_label = ''1/2'', usage_ccf = 4, usage_therms = fl (4148 / 1000),
        average_ccf = None, unit = ''CCF'', timestamp = ''t0'', created_at = ''t0''\<rparr>]))
     (createMonthlySummary_GAS mdy_cal
        [\<lparr>date = ''02/03/2024'', date_label = ''2/3'', usage_ccf = 5, usage_therms = fl (5185 / 1000),
        average_ccf = None, unit = ''CCF'', timestamp = ''t0'', created_at = ''t0''\<rparr>,
         \<lparr>date = ''01/01/2024'', date_label = ''1/1'', usage_ccf = 2, usage_therms = fl (2074 / 1000),
        average_ccf = None, unit = ''CCF'', timestamp = ''t0'', created_at = ''t0''\<rparr>,
         \<lparr>date = ''01/02/2024'', date_label = ''1/2'', usage_ccf = 4, usage_therms = fl (4148 / 1000),
        average_ccf = None, unit = ''CCF'', timestamp = ''t0'', created_at = ''t0''\<rparr>])"
proof -
  let ?h = "[\<lparr>date = ''02/03/2024'', date_label = ''2/3'', usage_ccf = 5, usage_therms = fl (5185 / 1000),
        average_ccf = None, unit = ''CCF'', timestamp = ''t0'', created_at = ''t0''\<rparr>,
      \<lparr>date = ''01/01/2024'', date_label = ''1/1'', usage_ccf = 2, usage_therms = fl (2074 / 1000),
        average_ccf = None, unit = ''CCF'', timestamp = ''t0'', created_at = ''t0''\<rparr>,
      \<lparr>date = ''01/02/2024'', date_label = ''1/2'', usage_ccf = 4, usage_therms = fl (4148 / 1000),
        average_ccf = None, unit = ''CCF'', timestamp = ''t0'', created_at = ''t0''\<rparr>]"
  have ev: "createMonthlySummary_GAS mdy_cal ?h
   = [\<lparr>month = ''2024-01'', total_ccf = 6, total_therms = fl (6222 / 1000), days = 2,
        average_daily_ccf = 3, average_daily_therms = fl (3111 / 1000)\<rparr>,
      \<lparr>month = ''2024-02'', total_ccf = 5, total_therms = fl (5185 / 1000), days = 1,
        average_daily_ccf = 5, average_daily_therms = fl (5185 / 1000)\<rparr>]"
    by code_simp
  note r = monthly_rollup[of mdy_cal ?h]
  from r have s: "sorted_wrt (\<lambda>a b. localeCompare (month a) (month b) < 0)
     (createMonthlySummary_GAS mdy_cal ?h)"
    by blast
  from r have "\<forall>m\<in>set (createMonthlySummary_GAS mdy_cal ?h).
      days m = length (filter (\<lambda>r. month_key_of mdy_cal (date r) = month m) ?h)"
    by blast
  then have d: "list_all (\<lambda>m. days m = length (filter (\<lambda>r. month_key_of mdy_cal (date r) = month m) ?h))
     (createMonthlySummary_GAS mdy_cal ?h)"
    by (simp only: list_all_iff)
  from ev s d show ?thesis by blast
qed

end
